theory Spec2Isabelle
  imports Complex_Main "HOL-Library.Sublist" "HOL-Library.AList"
    "HOL-Library.Char_ord" "HOL-Library.List_Lexorder"
begin

section \<open>Python values\<close>

text \<open>
  Strings are lists of characters, read as ASCII text. Python numbers (\<open>int\<close> and
  \<open>float\<close> values read from JSON) are modelled as real numbers; comparisons between
  them are exact in Python as well. A dictionary whose keys are data (the nutrition
  mapping, the inner dictionaries of the cross-tabulation matrices) is an association
  list in insertion order; \<open>d.get(k, default)\<close> is \<open>dict_get\<close>.
\<close>

definition get_or :: "'a \<Rightarrow> 'a option \<Rightarrow> 'a" where
  "get_or d x = (case x of None \<Rightarrow> d | Some v \<Rightarrow> v)"

definition dict_get :: "('k \<times> 'v) list \<Rightarrow> 'k \<Rightarrow> 'v \<Rightarrow> 'v" where
  "dict_get d k dflt = (case map_of d k of None \<Rightarrow> dflt | Some v \<Rightarrow> v)"

definition lower_char :: "char \<Rightarrow> char" where
  "lower_char c =
     (let n = (of_char c :: nat) in if 65 \<le> n \<and> n \<le> 90 then char_of (n + 32) else c)"

definition lower :: "string \<Rightarrow> string" where
  "lower s = map lower_char s"

definition is_space :: "char \<Rightarrow> bool" where
  "is_space c = ((of_char c :: nat) \<in> {9, 10, 11, 12, 13, 28, 29, 30, 31, 32})"

definition py_strip :: "string \<Rightarrow> string" where
  "py_strip s = rev (dropWhile is_space (rev (dropWhile is_space s)))"

fun words_acc :: "string \<Rightarrow> string \<Rightarrow> string list" where
  "words_acc cur [] = (if cur = [] then [] else [cur])"
| "words_acc cur (c # cs) =
     (if is_space c then (if cur = [] then words_acc [] cs else cur # words_acc [] cs)
      else words_acc (cur @ [c]) cs)"

definition py_split :: "string \<Rightarrow> string list" where
  "py_split s = words_acc [] s"

fun py_join :: "string \<Rightarrow> string list \<Rightarrow> string" where
  "py_join sep [] = []"
| "py_join sep [x] = x"
| "py_join sep (x # y # ys) = x @ sep @ py_join sep (y # ys)"

text \<open>\<open>item in text\<close> on two strings is the contiguous-substring test.\<close>

definition py_in :: "string \<Rightarrow> string \<Rightarrow> bool" where
  "py_in item text = sublist item text"

definition count_in :: "string list \<Rightarrow> string \<Rightarrow> nat" where
  "count_in items text = length (filter (\<lambda>item. py_in item text) items)"

definition any_in :: "string list \<Rightarrow> string \<Rightarrow> bool" where
  "any_in items text = list_ex (\<lambda>item. py_in item text) items"

section \<open>Data model\<close>

text \<open>
  An ingredient is a dictionary with the optional keys \<open>name\<close>, \<open>amount\<close> and
  \<open>unit\<close> (spec section 3). The validator and the enricher call \<open>ing.get\<close> on every
  ingredient, so only dictionaries pass through the pipeline.
\<close>

record ingredient =
  ing_name :: "string option"
  ing_amount :: "real option"
  ing_unit :: "string option"

text \<open>The messages of the validator, as values: blocking errors and warnings.\<close>

datatype verror =
    MissingField string
  | TooFewIngredients
  | NoInstructions
  | CarbsTooLow real real
  | CarbsTooHigh real real
  | FiberTooLow real real
  | HighGlycemicIndex

datatype vwarning =
    ProteinLow real real
  | HighSugar real real
  | LowFiberRatio real
  | HighSaturatedFat real real
  | HighSodium real
  | TotalTimeExceeds int
  | NoIngredientsFound
  | ManyUncommon "string list"
  | UnknownGlycemicIndex
  | ContainsAllergens "string list"

text \<open>The reasons that the diversity tracker returns with its decision.\<close>

datatype reason =
    EnoughMealType string
  | EnoughCuisine string
  | NeedCuisineDiversity string

record validation_status =
  vs_valid :: bool
  vs_warnings :: "vwarning list"

text \<open>
  A recipe is a Python dictionary; every key may be absent. The type parameter is the
  type of the value stored under \<open>tags\<close>: the list itself (\<open>vrecipe\<close>) where a function
  only reads it, an address into the heap of list objects (\<open>rrecipe\<close>) where the
  sharing of the list between two dictionaries matters.
\<close>

record 'tg recipe =
  title :: "string option"
  description :: "string option"
  ingredients :: "ingredient list option"
  instructions :: "string list option"
  nutrition :: "(string \<times> real) list option"
  prepTime :: "int option"
  cookTime :: "int option"
  tags :: "'tg option"
  sourceSite :: "string option"
  seasonalTags :: "string list option"
  cuisine :: "string option"
  trimesterSuitability :: "string list option"
  batchFriendly :: "bool option"
  freezerFriendly :: "bool option"
  shoppingList :: "(string \<times> (string \<times> real \<times> string) list) list option"
  cookingMethods :: "string list option"
  timeCategory :: "string option"
  potentialDuplicate :: "bool option"
  duplicateOf :: "string option"
  surplus :: "bool option"
  surplusReasons :: "reason list option"
  scraper :: "string option"
  validationStatus :: "validation_status option"

type_synonym vrecipe = "string list recipe"

definition get_title :: "'tg recipe \<Rightarrow> string" where
  "get_title r = get_or [] (title r)"

definition get_description :: "'tg recipe \<Rightarrow> string" where
  "get_description r = get_or [] (description r)"

definition get_ingredients :: "'tg recipe \<Rightarrow> ingredient list" where
  "get_ingredients r = get_or [] (ingredients r)"

definition get_instructions :: "'tg recipe \<Rightarrow> string list" where
  "get_instructions r = get_or [] (instructions r)"

definition get_nutrition :: "'tg recipe \<Rightarrow> (string \<times> real) list" where
  "get_nutrition r = get_or [] (nutrition r)"

definition get_tags :: "vrecipe \<Rightarrow> string list" where
  "get_tags r = get_or [] (tags r)"

definition get_name :: "ingredient \<Rightarrow> string" where
  "get_name ing = get_or [] (ing_name ing)"

definition total_time :: "'tg recipe \<Rightarrow> int" where
  "total_time r = get_or 0 (prepTime r) + get_or 0 (cookTime r)"

section \<open>Quality validator (quality\_validator.py)\<close>

record guidelines =
  min_carbs :: real
  max_carbs :: real
  min_fiber :: real
  min_protein :: real

text \<open>\<open>GD_GUIDELINES.get(meal_type, GD_GUIDELINES['meals'])\<close> for the two meal types
  that \<open>_determine_meal_type\<close> returns.\<close>

definition GD_GUIDELINES :: "string \<Rightarrow> guidelines" where
  "GD_GUIDELINES meal_type =
     (if meal_type = ''snacks''
      then \<lparr>min_carbs = 15, max_carbs = 30, min_fiber = 3, min_protein = 5\<rparr>
      else \<lparr>min_carbs = 30, max_carbs = 45, min_fiber = 5, min_protein = 15\<rparr>)"

definition max_prep_time :: int where "max_prep_time = 45"
definition max_sugar_ratio :: real where "max_sugar_ratio = 4 / 10"
definition min_fiber_carb_ratio :: real where "min_fiber_carb_ratio = 1 / 10"
definition max_saturated_fat_ratio :: real where "max_saturated_fat_ratio = 3 / 10"

definition GI_low :: "string list" where
  "GI_low = [''quinoa'', ''steel cut oats'', ''rolled oats'', ''barley'', ''bulgur'',
     ''sweet potato'', ''yam'', ''most vegetables'', ''beans'', ''lentils'',
     ''chickpeas'', ''black beans'', ''kidney beans'', ''whole grain bread'',
     ''whole wheat pasta'', ''brown rice'', ''wild rice'', ''nuts'', ''seeds'',
     ''greek yogurt'', ''plain yogurt'', ''milk'', ''cheese'', ''eggs'',
     ''chicken'', ''fish'', ''turkey'', ''lean beef'', ''tofu'', ''tempeh'',
     ''apples'', ''pears'', ''berries'', ''citrus'', ''stone fruits'']"

definition GI_medium :: "string list" where
  "GI_medium = [''whole wheat bread'', ''pita bread'', ''couscous'', ''basmati rice'',
     ''sweet corn'', ''raisins'', ''bananas'', ''grapes'', ''mango'',
     ''whole grain crackers'', ''popcorn'', ''honey'', ''maple syrup'']"

definition GI_high :: "string list" where
  "GI_high = [''white bread'', ''white rice'', ''instant rice'', ''rice cakes'',
     ''corn flakes'', ''instant oatmeal'', ''white potato'', ''french fries'',
     ''pretzels'', ''crackers'', ''watermelon'', ''white pasta'', ''bagels'',
     ''sugar'', ''candy'', ''soda'', ''juice'', ''sports drinks'']"

definition COMMON_INGREDIENTS :: "string list" where
  "COMMON_INGREDIENTS =
     [''chicken'', ''turkey'', ''beef'', ''pork'', ''fish'', ''salmon'', ''tuna'',
      ''eggs'', ''tofu'', ''tempeh'', ''beans'', ''lentils'', ''chickpeas'',
      ''greek yogurt'', ''cottage cheese'', ''nuts'', ''seeds''] @
     [''quinoa'', ''brown rice'', ''wild rice'', ''oats'', ''barley'', ''bulgur'',
      ''whole wheat flour'', ''whole grain bread'', ''whole wheat pasta''] @
     [''spinach'', ''kale'', ''lettuce'', ''broccoli'', ''cauliflower'', ''carrots'',
      ''bell peppers'', ''tomatoes'', ''cucumber'', ''zucchini'', ''onions'',
      ''garlic'', ''mushrooms'', ''green beans'', ''asparagus'', ''brussels sprouts''] @
     [''olive oil'', ''avocado'', ''nuts'', ''seeds'', ''nut butter'', ''tahini'',
      ''coconut oil'', ''flaxseed'', ''chia seeds'', ''salmon'', ''sardines''] @
     [''salt'', ''pepper'', ''herbs'', ''spices'', ''lemon'', ''lime'', ''vinegar'',
      ''mustard'', ''hot sauce'', ''soy sauce'', ''ginger'', ''turmeric'']"

datatype glycemic_index = GI_Low | GI_Medium | GI_High | GI_Unknown

definition determine_meal_type :: "vrecipe \<Rightarrow> string" where
  "determine_meal_type recipe =
     (let nutr = get_nutrition recipe;
          calories = dict_get nutr ''calories'' 0;
          tgs = get_tags recipe
      in if ''snack'' \<in> set tgs \<or> ''appetizer'' \<in> set tgs then ''snacks''
         else if list_ex (\<lambda>tag. tag \<in> set tgs) [''breakfast'', ''lunch'', ''dinner'', ''main'']
         then ''meals''
         else if 0 < calories \<and> calories \<le> 200 then ''snacks''
         else ''meals'')"

definition validate_required_fields :: "vrecipe \<Rightarrow> verror list" where
  "validate_required_fields recipe =
     (if get_title recipe = [] then [MissingField ''title''] else []) @
     (if get_ingredients recipe = [] then [MissingField ''ingredients''] else []) @
     (if get_instructions recipe = [] then [MissingField ''instructions''] else []) @
     (if get_nutrition recipe = [] then [MissingField ''nutrition''] else []) @
     (if get_ingredients recipe \<noteq> [] \<and> length (get_ingredients recipe) < 3
      then [TooFewIngredients] else []) @
     (if get_instructions recipe \<noteq> [] \<and> length (get_instructions recipe) < 1
      then [NoInstructions] else [])"

definition validate_nutrition ::
  "(string \<times> real) list \<Rightarrow> guidelines \<Rightarrow> verror list \<times> vwarning list" where
  "validate_nutrition nutr g =
     (let carbs = dict_get nutr ''carbs'' 0;
          fiber = dict_get nutr ''fiber'' 0;
          protein = dict_get nutr ''protein'' 0;
          sugar = dict_get nutr ''sugar'' 0;
          total_fat = dict_get nutr ''fat'' 0;
          sat_fat = dict_get nutr ''saturatedFat'' 0;
          sodium = dict_get nutr ''sodium'' 0;
          errors =
            (if carbs < min_carbs g then [CarbsTooLow carbs (min_carbs g)]
             else if carbs > max_carbs g then [CarbsTooHigh carbs (max_carbs g)]
             else []) @
            (if fiber < min_fiber g then [FiberTooLow fiber (min_fiber g)] else []);
          warnings =
            (if protein < min_protein g then [ProteinLow protein (min_protein g)] else []) @
            (if carbs > 0 \<and> sugar / carbs > max_sugar_ratio
             then [HighSugar sugar (sugar / carbs)] else []) @
            (if carbs > 0 \<and> fiber / carbs < min_fiber_carb_ratio
             then [LowFiberRatio (fiber / carbs)] else []) @
            (if total_fat > 0 \<and> sat_fat > 0 \<and> sat_fat / total_fat > max_saturated_fat_ratio
             then [HighSaturatedFat sat_fat (sat_fat / total_fat)] else []) @
            (if sodium > 600 then [HighSodium sodium] else [])
      in (errors, warnings))"

definition validate_ingredients :: "ingredient list \<Rightarrow> vwarning list" where
  "validate_ingredients ings =
     (if ings = [] then [NoIngredientsFound]
      else
        let ingredient_names = map (\<lambda>ing. lower (get_name ing)) ings;
            uncommon = filter (\<lambda>ing_name.
                \<not> any_in COMMON_INGREDIENTS ing_name \<and> length ing_name > 3) ingredient_names
        in if length uncommon > 3 then [ManyUncommon (take 3 uncommon)] else [])"

definition estimate_glycemic_index :: "vrecipe \<Rightarrow> glycemic_index" where
  "estimate_glycemic_index recipe =
     (let ings = get_ingredients recipe in
      if ings = [] then GI_Unknown
      else
        let ingredient_text = py_join '' '' (map (\<lambda>ing. lower (get_name ing)) ings);
            low_count = count_in GI_low ingredient_text;
            medium_count = count_in GI_medium ingredient_text;
            high_count = count_in GI_high ingredient_text;
            instructions_text = lower (py_join '' '' (get_instructions recipe));
            low_count =
              (if py_in ''raw'' instructions_text \<or> py_in ''fresh'' instructions_text
               then low_count + 1 else low_count);
            high_count =
              (if py_in ''deep fry'' instructions_text \<or> py_in ''fried'' instructions_text
               then high_count + 1 else high_count);
            total = low_count + medium_count + high_count
        in if total = 0 then GI_Unknown
           else
             let score = real (low_count * 1 + medium_count * 2 + high_count * 3) / real total
             in if score \<le> 15 / 10 then GI_Low
                else if score \<le> 25 / 10 then GI_Medium
                else GI_High)"

definition common_allergens :: "(string \<times> string list) list" where
  "common_allergens =
     [(''dairy'', [''milk'', ''cheese'', ''yogurt'', ''butter'', ''cream'', ''whey'']),
      (''eggs'', [''egg'', ''eggs'']),
      (''nuts'', [''almond'', ''walnut'', ''pecan'', ''cashew'', ''pistachio'', ''nut'']),
      (''peanuts'', [''peanut'']),
      (''soy'', [''soy'', ''tofu'', ''tempeh'', ''edamame'']),
      (''wheat'', [''wheat'', ''flour'', ''bread'', ''pasta'']),
      (''shellfish'', [''shrimp'', ''crab'', ''lobster'', ''scallop'']),
      (''fish'', [''salmon'', ''tuna'', ''cod'', ''tilapia'', ''fish''])]"

definition check_allergens :: "ingredient list \<Rightarrow> string list" where
  "check_allergens ings =
     (let ingredient_text = py_join '' '' (map (\<lambda>ing. lower (get_name ing)) ings)
      in map fst (filter (\<lambda>(allergen, keywords). any_in keywords ingredient_text)
                    common_allergens))"

record validation_stats =
  total_validated :: nat
  passed :: nat
  failed :: nat
  warned :: nat

text \<open>
  \<open>validate_recipe\<close> returns \<open>(is_valid, errors, warnings)\<close> and counts the call in
  the validator's statistics; the statistics are passed in and returned.
\<close>

definition validate_recipe ::
  "validation_stats \<Rightarrow> vrecipe \<Rightarrow> validation_stats \<times> bool \<times> verror list \<times> vwarning list" where
  "validate_recipe vstats recipe =
     (let meal_type = determine_meal_type recipe;
          g = GD_GUIDELINES meal_type;
          field_errors = validate_required_fields recipe;
          (nutrition_errors, nutrition_warnings) = validate_nutrition (get_nutrition recipe) g;
          prep_time = total_time recipe;
          time_warnings = (if prep_time > max_prep_time then [TotalTimeExceeds prep_time] else []);
          ingredient_warnings = validate_ingredients (get_ingredients recipe);
          gi = estimate_glycemic_index recipe;
          gi_errors = (if gi = GI_High then [HighGlycemicIndex] else []);
          gi_warnings = (if gi \<noteq> GI_High \<and> gi = GI_Unknown then [UnknownGlycemicIndex] else []);
          allergens = check_allergens (get_ingredients recipe);
          allergen_warnings = (if allergens \<noteq> [] then [ContainsAllergens allergens] else []);
          errors = field_errors @ nutrition_errors @ gi_errors;
          warnings = nutrition_warnings @ time_warnings @ ingredient_warnings @ gi_warnings
                     @ allergen_warnings;
          vstats = vstats\<lparr>total_validated := total_validated vstats + 1\<rparr>;
          vstats = (if errors = [] then vstats\<lparr>passed := passed vstats + 1\<rparr>
                    else vstats\<lparr>failed := failed vstats + 1\<rparr>);
          vstats = (if warnings \<noteq> [] then vstats\<lparr>warned := warned vstats + 1\<rparr> else vstats)
      in (vstats, errors = [], errors, warnings))"

section \<open>Diversity tracker (diversity\_tracker.py)\<close>

definition COLLECTION_TARGETS_by_meal_type :: "(string \<times> nat) list" where
  "COLLECTION_TARGETS_by_meal_type =
     [(''breakfast'', 90), (''lunch'', 90), (''dinner'', 90), (''snacks'', 90)]"

definition COLLECTION_TARGETS_by_cuisine :: "(string \<times> nat) list" where
  "COLLECTION_TARGETS_by_cuisine =
     [(''mediterranean'', 60), (''asian'', 60), (''latin'', 50), (''indian'', 40),
      (''italian'', 40), (''american'', 40), (''middle_eastern'', 30), (''other'', 40)]"

definition min_cuisines_per_meal_type :: nat where
  "min_cuisines_per_meal_type = 4"

record tracker_entry =
  entry_title :: "string option"
  entry_meal_type :: string
  entry_cuisine :: string
  entry_seasons :: "string list"

text \<open>
  The tracker's state: \<open>self.stats\<close> and \<open>self.recipes\<close>. A \<open>defaultdict(int)\<close> or
  \<open>Counter\<close> is read through its values, a total function that is 0 on keys never
  incremented (reading a missing key inserts it with 0 in Python, which no lookup can
  tell apart). The inner dictionaries of the two matrices keep their keys, since
  \<open>add_recipe\<close> tests a key's presence. The two time stamps are left out.
\<close>

record diversity_tracker =
  total_count :: nat
  by_meal_type :: "string \<Rightarrow> nat"
  by_cuisine :: "string \<Rightarrow> nat"
  by_season :: "string \<Rightarrow> nat"
  by_prep_time :: "string \<Rightarrow> nat"
  by_special_diet :: "string \<Rightarrow> nat"
  by_source :: "string \<Rightarrow> nat"
  cuisine_meal_matrix :: "string \<Rightarrow> (string \<times> nat) list"
  seasonal_meal_matrix :: "string \<Rightarrow> (string \<times> nat) list"
  protein_sources :: "string \<Rightarrow> nat"
  grain_sources :: "string \<Rightarrow> nat"
  unique_ingredients :: "string set"
  recipe_signatures :: "string set"
  recipes :: "tracker_entry list"

definition initialize_stats :: diversity_tracker where
  "initialize_stats =
     \<lparr>total_count = 0, by_meal_type = (\<lambda>_. 0), by_cuisine = (\<lambda>_. 0), by_season = (\<lambda>_. 0),
      by_prep_time = (\<lambda>_. 0), by_special_diet = (\<lambda>_. 0), by_source = (\<lambda>_. 0),
      cuisine_meal_matrix = (\<lambda>_. []), seasonal_meal_matrix = (\<lambda>_. []),
      protein_sources = (\<lambda>_. 0), grain_sources = (\<lambda>_. 0),
      unique_ingredients = {}, recipe_signatures = {}, recipes = []\<rparr>"

definition inc :: "(string \<Rightarrow> nat) \<Rightarrow> string \<Rightarrow> (string \<Rightarrow> nat)" where
  "inc f k = f(k := f k + 1)"

definition inc_matrix ::
  "(string \<Rightarrow> (string \<times> nat) list) \<Rightarrow> string \<Rightarrow> string \<Rightarrow> (string \<Rightarrow> (string \<times> nat) list)" where
  "inc_matrix m row k = m(row := AList.update k (dict_get (m row) k 0 + 1) (m row))"

definition get_meal_type :: "vrecipe \<Rightarrow> string" where
  "get_meal_type recipe =
     (let tgs = get_tags recipe;
          ttl = lower (get_title recipe)
      in case find (\<lambda>meal. meal \<in> set tgs \<or> py_in meal ttl)
                [''breakfast'', ''lunch'', ''dinner'', ''snacks''] of
           Some meal \<Rightarrow> meal
         | None \<Rightarrow>
             let calories = dict_get (get_nutrition recipe) ''calories'' 0
             in if calories < 200 then ''snacks''
                else if py_in ''morning'' ttl \<or> py_in ''pancake'' ttl \<or> py_in ''muffin'' ttl
                then ''breakfast''
                else ''dinner'')"

definition tracked_proteins :: "string list" where
  "tracked_proteins =
     [''chicken'', ''turkey'', ''beef'', ''pork'', ''lamb'', ''fish'', ''salmon'',
      ''tuna'', ''shrimp'', ''tofu'', ''tempeh'', ''beans'', ''lentils'', ''chickpeas'',
      ''eggs'', ''greek yogurt'', ''cottage cheese'', ''nuts'', ''quinoa'']"

definition tracked_grains :: "string list" where
  "tracked_grains =
     [''rice'', ''brown rice'', ''wild rice'', ''quinoa'', ''oats'', ''barley'',
      ''bulgur'', ''wheat'', ''pasta'', ''bread'', ''couscous'', ''farro'',
      ''millet'', ''buckwheat'', ''corn'', ''polenta'']"

text \<open>The loops of the tracker each touch one or two counters; they are folds over
  those counters.\<close>

definition count_keywords :: "string list \<Rightarrow> string \<Rightarrow> (string \<Rightarrow> nat) \<Rightarrow> (string \<Rightarrow> nat)" where
  "count_keywords keywords text counter =
     fold (\<lambda>keyword f. if py_in keyword text then inc f keyword else f) keywords counter"

definition add_ingredient_names :: "ingredient list \<Rightarrow> string set \<Rightarrow> string set" where
  "add_ingredient_names ings names =
     fold (\<lambda>ing s. let nm = py_strip (lower (get_name ing)) in if nm \<noteq> [] then insert nm s else s)
       ings names"

definition track_ingredient_diversity :: "diversity_tracker \<Rightarrow> vrecipe \<Rightarrow> diversity_tracker" where
  "track_ingredient_diversity tr recipe =
     (let ings = get_ingredients recipe;
          ingredients_text = lower (py_join '' '' (map get_name ings))
      in tr\<lparr>protein_sources := count_keywords tracked_proteins ingredients_text (protein_sources tr),
            grain_sources := count_keywords tracked_grains ingredients_text (grain_sources tr),
            unique_ingredients := add_ingredient_names ings (unique_ingredients tr)\<rparr>)"

definition create_recipe_signature :: "vrecipe \<Rightarrow> string" where
  "create_recipe_signature recipe =
     (let ttl = py_strip (lower (get_title recipe));
          main_ingredients =
            map (\<lambda>ing.
                   py_join '' ''
                     (filter (\<lambda>word. word \<notin> set [''the'', ''a'', ''an'', ''and'', ''or'', ''of''])
                        (py_split (py_strip (lower (get_name ing))))))
                (take 5 (get_ingredients recipe));
          signature_parts = [ttl] @ sort main_ingredients
      in py_join ''|'' signature_parts)"

definition diet_tags_tracked :: "string list" where
  "diet_tags_tracked =
     [''vegetarian'', ''vegan'', ''gluten-free'', ''dairy-free'', ''keto-friendly'',
      ''paleo-friendly'']"

definition update_stats ::
  "diversity_tracker \<Rightarrow> vrecipe \<Rightarrow> string \<Rightarrow> string \<Rightarrow> string list \<Rightarrow> string \<Rightarrow> string list
     \<Rightarrow> diversity_tracker" where
  "update_stats tr recipe meal_type cuis seasons prep_time tgs =
     (let tr = tr\<lparr>total_count := total_count tr + 1\<rparr>;
          tr = tr\<lparr>by_meal_type := inc (by_meal_type tr) meal_type\<rparr>;
          tr = (if cuis \<noteq> []
                then tr\<lparr>by_cuisine := inc (by_cuisine tr) cuis,
                        cuisine_meal_matrix := inc_matrix (cuisine_meal_matrix tr) meal_type cuis\<rparr>
                else tr);
          tr = tr\<lparr>by_season := fold (\<lambda>season f. inc f season) seasons (by_season tr),
                  seasonal_meal_matrix :=
                    fold (\<lambda>season m. inc_matrix m meal_type season) seasons
                      (seasonal_meal_matrix tr)\<rparr>;
          tr = (if prep_time \<noteq> [] then tr\<lparr>by_prep_time := inc (by_prep_time tr) prep_time\<rparr>
                else tr);
          tr = tr\<lparr>by_special_diet :=
                    fold (\<lambda>diet f. if diet \<in> set tgs then inc f diet else f) diet_tags_tracked
                      (by_special_diet tr)\<rparr>;
          source = get_or ''unknown'' (sourceSite recipe);
          tr = tr\<lparr>by_source := inc (by_source tr) source\<rparr>;
          tr = track_ingredient_diversity tr recipe;
          signature = create_recipe_signature recipe
      in tr\<lparr>recipe_signatures := insert signature (recipe_signatures tr)\<rparr>)"

text \<open>\<open>DiversityTracker.add_recipe\<close>: the new tracker, \<open>should_add\<close> and the reasons.\<close>

definition tracker_add_recipe ::
  "diversity_tracker \<Rightarrow> vrecipe \<Rightarrow> diversity_tracker \<times> bool \<times> reason list" where
  "tracker_add_recipe tr recipe =
     (let should_add = True;
          meal_type = get_meal_type recipe;
          cuis = get_or ''other'' (cuisine recipe);
          seasons = get_or [] (seasonalTags recipe);
          prep_time = get_or ''quick-meals'' (timeCategory recipe);
          tgs = get_tags recipe;
          meal_full =
            (by_meal_type tr meal_type \<ge> dict_get COLLECTION_TARGETS_by_meal_type meal_type 90);
          should_add = (if meal_full then False else should_add);
          cuisine_full =
            (cuis \<noteq> [] \<and> by_cuisine tr cuis \<ge> dict_get COLLECTION_TARGETS_by_cuisine cuis 40);
          should_add = (if cuisine_full then False else should_add);
          row = cuisine_meal_matrix tr meal_type;
          cuisine_count = length (filter (\<lambda>(c, count). count > 0) row);
          reasons =
            (if meal_full then [EnoughMealType meal_type] else []) @
            (if cuisine_full then [EnoughCuisine cuis] else []) @
            (if meal_type \<noteq> [] \<and> cuisine_count < min_cuisines_per_meal_type
                \<and> cuis \<in> set (map fst row)
             then [NeedCuisineDiversity meal_type] else []);
          tr = (if should_add
                then (update_stats tr recipe meal_type cuis seasons prep_time tgs)
                       \<lparr>recipes := recipes tr @
                          [\<lparr>entry_title = title recipe, entry_meal_type = meal_type,
                            entry_cuisine = cuis, entry_seasons = seasons\<rparr>]\<rparr>
                else tr)
      in (tr, should_add, reasons))"

definition check_duplicate :: "diversity_tracker \<Rightarrow> vrecipe \<Rightarrow> bool" where
  "check_duplicate tr recipe = (create_recipe_signature recipe \<in> recipe_signatures tr)"

text \<open>The trackers that a run can reach: the fresh one, and any one after a call of
  \<open>add_recipe\<close>.\<close>

inductive reachable :: "diversity_tracker \<Rightarrow> bool" where
  reachable_init: "reachable initialize_stats"
| reachable_add: "reachable tr \<Longrightarrow> reachable (fst (tracker_add_recipe tr recipe))"

section \<open>Recipe enricher (recipe\_enrichment.py)\<close>

definition SEASONAL_INGREDIENTS :: "(string \<times> string list) list" where
  "SEASONAL_INGREDIENTS =
     [(''spring'', [''asparagus'', ''artichoke'', ''peas'', ''spring onions'', ''radish'',
        ''strawberries'', ''rhubarb'', ''spinach'', ''lettuce'', ''arugula'',
        ''fennel'', ''leeks'', ''mint'', ''parsley'', ''dill'']),
      (''summer'', [''tomatoes'', ''corn'', ''zucchini'', ''cucumber'', ''bell peppers'',
        ''eggplant'', ''berries'', ''peaches'', ''watermelon'', ''melon'',
        ''basil'', ''cilantro'', ''green beans'', ''okra'', ''summer squash'']),
      (''fall'', [''pumpkin'', ''butternut squash'', ''acorn squash'', ''sweet potato'',
        ''apples'', ''pears'', ''cranberries'', ''brussels sprouts'', ''cauliflower'',
        ''kale'', ''swiss chard'', ''pomegranate'', ''persimmon'', ''figs'']),
      (''winter'', [''cabbage'', ''winter squash'', ''root vegetables'', ''carrots'', ''parsnips'',
        ''turnips'', ''beets'', ''citrus'', ''oranges'', ''grapefruit'', ''lemons'',
        ''collard greens'', ''endive'', ''radicchio'', ''dates''])]"

definition SEASONAL_year_round :: "string list" where
  "SEASONAL_year_round =
     [''onions'', ''garlic'', ''potatoes'', ''mushrooms'', ''broccoli'',
      ''carrots'', ''celery'', ''bananas'', ''avocados'', ''nuts'', ''seeds'']"

text \<open>\<open>CUISINE_PATTERNS\<close>: cuisine, ingredient keywords, dish keywords, in the order
  of the dictionary.\<close>

definition CUISINE_PATTERNS :: "(string \<times> string list \<times> string list) list" where
  "CUISINE_PATTERNS =
     [(''mediterranean'',
        [''olive oil'', ''feta'', ''olives'', ''oregano'', ''basil'',
         ''tomatoes'', ''garlic'', ''lemon'', ''yogurt'', ''chickpeas'',
         ''tahini'', ''hummus'', ''pita'', ''couscous'', ''bulgur''],
        [''greek salad'', ''tzatziki'', ''tabbouleh'', ''shakshuka'', ''falafel'']),
      (''asian'',
        [''soy sauce'', ''ginger'', ''sesame'', ''rice vinegar'', ''miso'',
         ''tofu'', ''bok choy'', ''noodles'', ''rice'', ''sriracha'',
         ''fish sauce'', ''coconut milk'', ''curry'', ''lemongrass''],
        [''stir fry'', ''pad thai'', ''pho'', ''curry'', ''sushi'', ''teriyaki'']),
      (''latin'',
        [''cilantro'', ''lime'', ''jalapeno'', ''chili'', ''cumin'',
         ''black beans'', ''corn'', ''avocado'', ''salsa'', ''tortilla'',
         ''queso'', ''chorizo'', ''plantain'', ''mole'', ''adobo''],
        [''tacos'', ''enchiladas'', ''burrito'', ''quesadilla'', ''ceviche'']),
      (''indian'',
        [''curry'', ''turmeric'', ''cumin'', ''coriander'', ''garam masala'',
         ''cardamom'', ''naan'', ''basmati rice'', ''dal'', ''paneer'',
         ''ghee'', ''chutney'', ''tandoori'', ''masala''],
        [''curry'', ''biryani'', ''tikka masala'', ''samosa'', ''dosa'']),
      (''italian'',
        [''pasta'', ''parmesan'', ''mozzarella'', ''basil'', ''oregano'',
         ''marinara'', ''pesto'', ''risotto'', ''prosciutto'', ''balsamic'',
         ''ricotta'', ''polenta'', ''gnocchi''],
        [''pasta'', ''pizza'', ''risotto'', ''lasagna'', ''caprese'']),
      (''american'',
        [''bbq sauce'', ''ranch'', ''cheddar'', ''bacon'', ''maple syrup'',
         ''cornbread'', ''coleslaw'', ''buffalo sauce''],
        [''burger'', ''sandwich'', ''mac and cheese'', ''chili'', ''meatloaf'']),
      (''middle_eastern'',
        [''tahini'', ''sumac'', ''zaatar'', ''pomegranate'', ''dates'',
         ''pistachios'', ''rose water'', ''harissa'', ''preserved lemon''],
        [''shawarma'', ''kebab'', ''baba ganoush'', ''fattoush''])]"

text \<open>\<open>TRIMESTER_CONSIDERATIONS\<close>: trimester, avoid, beneficial, tags.\<close>

definition TRIMESTER_CONSIDERATIONS ::
  "(string \<times> string list \<times> string list \<times> string list) list" where
  "TRIMESTER_CONSIDERATIONS =
     [(''first_trimester'',
        [''raw fish'', ''high mercury fish'', ''excessive caffeine''],
        [''ginger'', ''bland foods'', ''small portions'', ''crackers'', ''citrus'',
         ''vitamin b6 foods''],
        [''morning-sickness-friendly'', ''gentle-stomach'', ''small-portions'']),
      (''second_trimester'',
        [''high mercury fish'', ''raw eggs'', ''unpasteurized cheese''],
        [''iron rich'', ''calcium rich'', ''protein'', ''omega-3'', ''whole grains'', ''variety''],
        [''energy-boost'', ''nutrient-dense'', ''balanced'']),
      (''third_trimester'',
        [''heavy meals'', ''spicy foods'', ''gas-producing foods''],
        [''small frequent meals'', ''fiber'', ''hydrating foods'', ''easy to digest''],
        [''easy-digest'', ''heartburn-friendly'', ''light-meals''])]"

definition BATCH_FRIENDLY_INDICATORS :: "string list" where
  "BATCH_FRIENDLY_INDICATORS =
     [''casserole'', ''soup'', ''stew'', ''chili'', ''curry'', ''lasagna'',
      ''meatballs'', ''burrito'', ''enchilada'', ''sauce'', ''marinade'']"

definition FREEZER_FRIENDLY_INDICATORS :: "string list" where
  "FREEZER_FRIENDLY_INDICATORS =
     [''freeze'', ''frozen'', ''make ahead'', ''batch'', ''meal prep'',
      ''freezer friendly'', ''store frozen'']"

definition get_ingredients_text :: "'tg recipe \<Rightarrow> string" where
  "get_ingredients_text recipe = lower (py_join '' '' (map get_name (get_ingredients recipe)))"

definition classify_seasonal :: "string \<Rightarrow> string list" where
  "classify_seasonal ingredients_text =
     (let seasons = map fst (filter (\<lambda>(season, keywords). count_in keywords ingredients_text \<ge> 2)
                               SEASONAL_INGREDIENTS)
      in if seasons = []
         then (if count_in SEASONAL_year_round ingredients_text \<ge> 3 then [''year-round''] else [])
         else seasons)"

text \<open>\<open>Counter.most_common(1)\<close>: the first entry, in insertion order, with the greatest
  count.\<close>

fun most_common_1 :: "(string \<times> nat) list \<Rightarrow> (string \<times> nat) option" where
  "most_common_1 [] = None"
| "most_common_1 (x # xs) =
     (case most_common_1 xs of
        None \<Rightarrow> Some x
      | Some y \<Rightarrow> if snd y > snd x then Some y else Some x)"

definition classify_cuisine :: "string \<Rightarrow> string \<Rightarrow> string \<Rightarrow> string option" where
  "classify_cuisine ingredients_text ttl descr =
     (let combined_text = ingredients_text @ '' '' @ ttl @ '' '' @ descr;
          cuisine_scores =
            filter (\<lambda>(c, score). score > 0)
              (map (\<lambda>(c, ingredient_keywords, dishes).
                      (c, count_in ingredient_keywords combined_text
                          + 3 * count_in dishes combined_text))
                 CUISINE_PATTERNS)
      in case most_common_1 cuisine_scores of
           None \<Rightarrow> None
         | Some (top_cuisine, score) \<Rightarrow> if score \<ge> 3 then Some top_cuisine else None)"

text \<open>\<open>list(set(xs))\<close> keeps one copy of each element in an order that Python does
  not specify; the model takes the order of \<open>remdups\<close>.\<close>

definition list_set :: "string list \<Rightarrow> string list" where
  "list_set xs = remdups xs"

definition assess_trimester_suitability :: "string \<Rightarrow> string list \<times> string list" where
  "assess_trimester_suitability ingredients_text =
     (let qualifying =
            filter (\<lambda>(trimester, avoid, beneficial, tgs).
                      \<not> any_in avoid ingredients_text \<and> count_in beneficial ingredients_text \<ge> 2)
              TRIMESTER_CONSIDERATIONS;
          suitable_trimesters = map fst qualifying;
          tgs = concat (map (\<lambda>(trimester, avoid, beneficial, tgs). take 1 tgs) qualifying);
          tgs = (if length suitable_trimesters = 3 then [''pregnancy-friendly''] else tgs)
      in (suitable_trimesters, list_set tgs))"

text \<open>\<open>re.search\<close> for a pattern \<open>a.*b\<close> of two literal strings: \<open>a\<close> somewhere, then
  \<open>b\<close> later on the same line (the dot matches no newline).\<close>

fun re_search_dotstar :: "string \<Rightarrow> string \<Rightarrow> string \<Rightarrow> bool" where
  "re_search_dotstar a b [] = (a = [] \<and> b = [])"
| "re_search_dotstar a b (c # cs) =
     ((prefix a (c # cs)
        \<and> sublist b (takeWhile (\<lambda>x. x \<noteq> CHR 0x0A) (drop (length a) (c # cs))))
      \<or> re_search_dotstar a b cs)"

definition is_batch_friendly :: "string \<Rightarrow> string \<Rightarrow> bool" where
  "is_batch_friendly ttl instrs =
     (let combined_text = ttl @ '' '' @ instrs
      in if any_in BATCH_FRIENDLY_INDICATORS combined_text then True
         else re_search_dotstar ''double'' ''recipe'' combined_text
              \<or> re_search_dotstar ''make'' ''batch'' combined_text
              \<or> any_in [''serves 8'', ''serves 10'', ''serves 12'', ''large batch''] combined_text)"

definition is_freezer_friendly :: "string \<Rightarrow> string \<Rightarrow> string \<Rightarrow> bool" where
  "is_freezer_friendly ttl instrs descr =
     any_in FREEZER_FRIENDLY_INDICATORS (ttl @ '' '' @ instrs @ '' '' @ descr)"

definition shopping_category :: "string \<Rightarrow> string" where
  "shopping_category nm =
     (if any_in [''chicken'', ''beef'', ''pork'', ''fish'', ''tofu'', ''beans'', ''eggs''] nm
      then ''proteins''
      else if any_in ([''vegetable'', ''fruit''] @ SEASONAL_year_round) nm then ''produce''
      else if any_in [''rice'', ''pasta'', ''bread'', ''flour'', ''oats'', ''quinoa''] nm
      then ''grains''
      else if any_in [''milk'', ''cheese'', ''yogurt'', ''butter'', ''cream''] nm then ''dairy''
      else if any_in [''oil'', ''vinegar'', ''sauce'', ''spice''] nm then ''pantry''
      else ''other'')"

definition generate_shopping_list ::
  "ingredient list \<Rightarrow> (string \<times> (string \<times> real \<times> string) list) list" where
  "generate_shopping_list ings =
     filter (\<lambda>(k, v). v \<noteq> [])
       (map (\<lambda>category.
               (category,
                map (\<lambda>ing. (get_name ing, get_or 0 (ing_amount ing), get_or [] (ing_unit ing)))
                  (filter (\<lambda>ing. shopping_category (lower (get_name ing)) = category) ings)))
          [''proteins'', ''produce'', ''grains'', ''dairy'', ''pantry'', ''other''])"

definition cooking_verbs :: "(string \<times> string) list" where
  "cooking_verbs =
     [(''bake'', ''baking''), (''roast'', ''roasting''), (''grill'', ''grilling''),
      (''saute'', ''sauteing''), (''steam'', ''steaming''), (''boil'', ''boiling''),
      (''simmer'', ''simmering''), (''stir fry'', ''stir-frying''),
      (''slow cook'', ''slow-cooking''), (''pressure cook'', ''pressure-cooking''),
      (''air fry'', ''air-frying'')]"

definition extract_cooking_methods :: "string \<Rightarrow> string list" where
  "extract_cooking_methods instrs =
     take 3 (map snd (filter (\<lambda>(verb, method). py_in verb instrs) cooking_verbs))"

definition categorize_prep_time :: "int \<Rightarrow> string option" where
  "categorize_prep_time t =
     (if t \<le> 15 then Some ''15-min-meals''
      else if t \<le> 30 then Some ''30-min-meals''
      else if t \<le> 45 then Some ''quick-meals''
      else if t \<ge> 120 then Some ''slow-cooking''
      else None)"

definition identify_special_diets :: "vrecipe \<Rightarrow> string list" where
  "identify_special_diets recipe =
     (let ingredients_text = get_ingredients_text recipe;
          existing_tags = get_tags recipe;
          nutr = get_nutrition recipe;
          keto = (if dict_get nutr ''carbs'' 999 < 10 \<and> dict_get nutr ''fat'' 0 > 15
                  then [''keto-friendly''] else []);
          grain_keywords = [''wheat'', ''bread'', ''pasta'', ''rice'', ''oats''];
          dairy_keywords = [''milk'', ''cheese'', ''yogurt''];
          paleo = (if \<not> any_in (grain_keywords @ dairy_keywords) ingredients_text
                   then (if ''vegetarian'' \<notin> set existing_tags then [''paleo-friendly''] else [])
                   else []);
          prohibited = [''sugar'', ''honey'', ''maple'', ''dairy'', ''grain'', ''legume'', ''alcohol''];
          whole30 = (if \<not> any_in prohibited ingredients_text then [''whole30-compatible''] else [])
      in keto @ paleo @ whole30)"

subsection \<open>The heap of tag lists\<close>

text \<open>
  \<open>enrich_recipe\<close> starts from \<open>recipe.copy()\<close>, a shallow copy: the copy's \<open>tags\<close> is
  the same list object as the caller's. The list objects live in a heap; a recipe
  dictionary of type \<open>rrecipe\<close> holds the address of its tag list, and \<open>load\<close> reads a
  dictionary through the heap.
\<close>

type_synonym addr = nat

record heap =
  cells :: "addr \<Rightarrow> string list"
  next_free :: addr

type_synonym rrecipe = "addr recipe"

definition empty_heap :: heap where
  "empty_heap = \<lparr>cells = (\<lambda>_. []), next_free = 0\<rparr>"

definition new_list :: "heap \<Rightarrow> string list \<Rightarrow> heap \<times> addr" where
  "new_list h xs =
     (h\<lparr>cells := (cells h)(next_free h := xs), next_free := next_free h + 1\<rparr>, next_free h)"

definition list_extend :: "heap \<Rightarrow> addr \<Rightarrow> string list \<Rightarrow> heap" where
  "list_extend h a xs = h\<lparr>cells := (cells h)(a := cells h a @ xs)\<rparr>"

definition with_tags :: "'b option \<Rightarrow> 'a recipe \<Rightarrow> 'b recipe" where
  "with_tags tg r =
     \<lparr>title = title r, description = description r, ingredients = ingredients r,
      instructions = instructions r, nutrition = nutrition r, prepTime = prepTime r,
      cookTime = cookTime r, tags = tg, sourceSite = sourceSite r,
      seasonalTags = seasonalTags r, cuisine = cuisine r,
      trimesterSuitability = trimesterSuitability r, batchFriendly = batchFriendly r,
      freezerFriendly = freezerFriendly r, shoppingList = shoppingList r,
      cookingMethods = cookingMethods r, timeCategory = timeCategory r,
      potentialDuplicate = potentialDuplicate r, duplicateOf = duplicateOf r,
      surplus = surplus r, surplusReasons = surplusReasons r, scraper = scraper r,
      validationStatus = validationStatus r\<rparr>"

definition load :: "heap \<Rightarrow> rrecipe \<Rightarrow> vrecipe" where
  "load h r = with_tags (map_option (cells h) (tags r)) r"

definition store :: "heap \<Rightarrow> vrecipe \<Rightarrow> heap \<times> rrecipe" where
  "store h r =
     (case tags r of
        None \<Rightarrow> (h, with_tags None r)
      | Some tgs \<Rightarrow> (let (h, a) = new_list h tgs in (h, with_tags (Some a) r)))"

record enrichment_stats =
  total_enriched :: nat
  stat_seasonal_tags :: nat
  stat_cuisine_tags :: nat
  stat_trimester_tags :: nat
  stat_batch_tags :: nat

text \<open>
  \<open>RecipeEnricher.enrich_recipe\<close>, on the heap. The method runs eight numbered
  steps over its statistics, the heap and the dictionary \<open>enriched\<close>; each step below
  is one of them, and \<open>a\<close> is the address of the list that \<open>enriched['tags']\<close> refers
  to until the last step rebinds the key to a new list.
\<close>

type_synonym enrich_run = "enrichment_stats \<times> heap \<times> rrecipe"

definition add_seasonal_tags :: "addr \<Rightarrow> string \<Rightarrow> enrich_run \<Rightarrow> enrich_run" where
  "add_seasonal_tags a ingredients_text run =
     (case run of (es, h, enriched) \<Rightarrow>
        let s_tags = classify_seasonal ingredients_text
        in (if s_tags \<noteq> [] then es\<lparr>stat_seasonal_tags := stat_seasonal_tags es + 1\<rparr> else es,
            list_extend h a s_tags,
            enriched\<lparr>seasonalTags := Some s_tags\<rparr>))"

definition add_cuisine :: "addr \<Rightarrow> string \<Rightarrow> string \<Rightarrow> string \<Rightarrow> enrich_run \<Rightarrow> enrich_run" where
  "add_cuisine a ingredients_text ttl descr run =
     (case run of (es, h, enriched) \<Rightarrow>
        (case classify_cuisine ingredients_text ttl descr of
           Some c \<Rightarrow> (es\<lparr>stat_cuisine_tags := stat_cuisine_tags es + 1\<rparr>,
                      list_extend h a [''cuisine-'' @ c],
                      enriched\<lparr>cuisine := Some c\<rparr>)
         | None \<Rightarrow> (es, h, enriched)))"

definition add_trimester_suitability :: "addr \<Rightarrow> string \<Rightarrow> enrich_run \<Rightarrow> enrich_run" where
  "add_trimester_suitability a ingredients_text run =
     (case run of (es, h, enriched) \<Rightarrow>
        let suitable = fst (assess_trimester_suitability ingredients_text);
            t_tags = snd (assess_trimester_suitability ingredients_text)
        in (if t_tags \<noteq> [] then es\<lparr>stat_trimester_tags := stat_trimester_tags es + 1\<rparr> else es,
            list_extend h a t_tags,
            enriched\<lparr>trimesterSuitability := Some suitable\<rparr>))"

definition add_batch_freezer_flags ::
  "addr \<Rightarrow> string \<Rightarrow> string \<Rightarrow> string \<Rightarrow> enrich_run \<Rightarrow> enrich_run" where
  "add_batch_freezer_flags a ttl instructions_text descr run =
     (case run of (es, h, enriched) \<Rightarrow>
        let batch = is_batch_friendly ttl instructions_text;
            freezer = is_freezer_friendly ttl instructions_text descr;
            h = (if batch then list_extend h a [''batch-cooking''] else h);
            h = (if freezer then list_extend h a [''freezer-friendly''] else h)
        in (if batch then es\<lparr>stat_batch_tags := stat_batch_tags es + 1\<rparr> else es,
            h,
            enriched\<lparr>batchFriendly := Some batch, freezerFriendly := Some freezer\<rparr>))"

definition add_shopping_list :: "enrich_run \<Rightarrow> enrich_run" where
  "add_shopping_list run =
     (case run of (es, h, enriched) \<Rightarrow>
        (es, h, enriched\<lparr>shoppingList :=
                   Some (generate_shopping_list (get_ingredients enriched))\<rparr>))"

definition add_cooking_methods :: "addr \<Rightarrow> string \<Rightarrow> enrich_run \<Rightarrow> enrich_run" where
  "add_cooking_methods a instructions_text run =
     (case run of (es, h, enriched) \<Rightarrow>
        let methods = extract_cooking_methods instructions_text
        in (es,
            list_extend h a (map (\<lambda>method. ''method-'' @ method) methods),
            enriched\<lparr>cookingMethods := Some methods\<rparr>))"

definition add_time_category :: "addr \<Rightarrow> enrich_run \<Rightarrow> enrich_run" where
  "add_time_category a run =
     (case run of (es, h, enriched) \<Rightarrow>
        (case categorize_prep_time (total_time enriched) of
           Some time_category \<Rightarrow>
             (es, list_extend h a [time_category], enriched\<lparr>timeCategory := Some time_category\<rparr>)
         | None \<Rightarrow> (es, h, enriched)))"

definition add_diet_tags :: "addr \<Rightarrow> enrich_run \<Rightarrow> enrich_run" where
  "add_diet_tags a run =
     (case run of (es, h, enriched) \<Rightarrow>
        (es, list_extend h a (identify_special_diets (load h enriched)), enriched))"

definition remove_duplicate_tags :: "addr \<Rightarrow> enrich_run \<Rightarrow> enrich_run" where
  "remove_duplicate_tags a run =
     (case run of (es, h, enriched) \<Rightarrow>
        (es\<lparr>total_enriched := total_enriched es + 1\<rparr>,
         fst (new_list h (list_set (cells h a))),
         enriched\<lparr>tags := Some (snd (new_list h (list_set (cells h a))))\<rparr>))"

definition enrich_recipe ::
  "enrichment_stats \<Rightarrow> heap \<Rightarrow> rrecipe \<Rightarrow> enrichment_stats \<times> heap \<times> rrecipe" where
  "enrich_recipe es h recipe =
     (let enriched = recipe;
          a = (case tags enriched of Some a \<Rightarrow> a | None \<Rightarrow> snd (new_list h []));
          h = (case tags enriched of Some _ \<Rightarrow> h | None \<Rightarrow> fst (new_list h []));
          enriched = enriched\<lparr>tags := Some a\<rparr>;
          ingredients_text = get_ingredients_text enriched;
          ttl = lower (get_title enriched);
          descr = lower (get_description enriched);
          instructions_text = lower (py_join '' '' (get_instructions enriched));
          run = (es, h, enriched);
          run = add_seasonal_tags a ingredients_text run;
          run = add_cuisine a ingredients_text ttl descr run;
          run = add_trimester_suitability a ingredients_text run;
          run = add_batch_freezer_flags a ttl instructions_text descr run;
          run = add_shopping_list run;
          run = add_cooking_methods a instructions_text run;
          run = add_time_category a run;
          run = add_diet_tags a run
      in remove_duplicate_tags a run)"

text \<open>The pipeline hands the enricher a dictionary that nothing else reads afterwards;
  there the call is a function from values to values.\<close>

definition enrich_recipe_value :: "enrichment_stats \<Rightarrow> vrecipe \<Rightarrow> enrichment_stats \<times> vrecipe" where
  "enrich_recipe_value es recipe =
     (let (h, r) = store empty_heap recipe;
          (es, h, enriched) = enrich_recipe es h r
      in (es, load h enriched))"

section \<open>Duplicate detector (duplicate\_detector.py)\<close>

text \<open>
  Floating-point numbers are modelled as real numbers. A division raises
  \<open>ZeroDivisionError\<close> on a zero divisor (numpy yields \<open>inf\<close> or \<open>nan\<close>); \<open>py_div\<close>
  returns \<open>None\<close> there, and a similarity function returns \<open>None\<close> when a division
  it performs does.
\<close>

definition py_div :: "real \<Rightarrow> real \<Rightarrow> real option" where
  "py_div a b = (if b = 0 then None else Some (a / b))"

definition combined_threshold :: real where
  "combined_threshold = 75 / 100"

text \<open>
  The three string-similarity functions of the \<open>fuzzywuzzy\<close> library
  (\<open>fuzz.ratio\<close>, \<open>fuzz.token_sort_ratio\<close>, \<open>fuzz.partial_ratio\<close>, each an integer from
  0 to 100) are not code of this repository: they are parameters of the detector.
\<close>

record fuzz =
  ratio :: "string \<Rightarrow> string \<Rightarrow> int"
  token_sort_ratio :: "string \<Rightarrow> string \<Rightarrow> int"
  partial_ratio :: "string \<Rightarrow> string \<Rightarrow> int"

definition calculate_title_similarity :: "fuzz \<Rightarrow> string \<Rightarrow> string \<Rightarrow> real" where
  "calculate_title_similarity fz title1 title2 =
     (let basic_ratio = real_of_int (ratio fz (lower title1) (lower title2)) / 100;
          token_ratio = real_of_int (token_sort_ratio fz (lower title1) (lower title2)) / 100;
          partial = real_of_int (partial_ratio fz (lower title1) (lower title2)) / 100
      in basic_ratio * (5 / 10) + token_ratio * (3 / 10) + partial * (2 / 10))"

definition descriptors :: "string list" where
  "descriptors =
     [''fresh'', ''frozen'', ''canned'', ''dried'', ''chopped'', ''diced'',
      ''sliced'', ''minced'', ''ground'', ''whole'', ''large'', ''small'',
      ''medium'', ''organic'', ''low-fat'', ''fat-free'', ''boneless'',
      ''skinless'', ''cooked'', ''raw'', ''unsalted'', ''salted'']"

definition extract_main_ingredient :: "string \<Rightarrow> string" where
  "extract_main_ingredient ingredient_name =
     (let main_words = filter (\<lambda>w. w \<notin> set descriptors) (py_split ingredient_name);
          result = py_join '' '' main_words
      in if CHR ''('' \<in> set result
         then py_strip (takeWhile (\<lambda>c. c \<noteq> CHR ''('') result)
         else result)"

definition main_ingredient_names :: "ingredient list \<Rightarrow> string set" where
  "main_ingredient_names ings =
     set (map extract_main_ingredient
            (filter (\<lambda>nm. nm \<noteq> []) (map (\<lambda>ing. py_strip (lower (get_name ing))) ings)))"

definition calculate_ingredient_similarity ::
  "ingredient list \<Rightarrow> ingredient list \<Rightarrow> real option" where
  "calculate_ingredient_similarity ingredients1 ingredients2 =
     (let names1 = main_ingredient_names ingredients1;
          names2 = main_ingredient_names ingredients2
      in if names1 = {} \<or> names2 = {} then Some 0
         else
           let intersection = card (names1 \<inter> names2);
               union = card (names1 \<union> names2)
           in if union > 0 then py_div (real intersection) (real union) else Some 0)"

definition key_nutrients :: "string list" where
  "key_nutrients = [''calories'', ''carbs'', ''protein'', ''fat'', ''fiber'', ''sugar'', ''sodium'']"

text \<open>The loop over the key nutrients collects the pairs of values that are not both
  zero; \<open>values1\<close> and \<open>values2\<close> are their two components.\<close>

definition nutrient_pairs :: "(string \<times> real) list \<Rightarrow> (string \<times> real) list \<Rightarrow> (real \<times> real) list" where
  "nutrient_pairs nutrition1 nutrition2 =
     filter (\<lambda>(val1, val2). \<not> (val1 = 0 \<and> val2 = 0))
       (map (\<lambda>nutrient. (dict_get nutrition1 nutrient 0, dict_get nutrition2 nutrient 0))
          key_nutrients)"

definition linalg_norm :: "real list \<Rightarrow> real" where
  "linalg_norm xs = sqrt (sum_list (map (\<lambda>x. x * x) xs))"

definition dot :: "real list \<Rightarrow> real list \<Rightarrow> real" where
  "dot xs ys = sum_list (map2 (*) xs ys)"

fun sequence :: "'a option list \<Rightarrow> 'a list option" where
  "sequence [] = Some []"
| "sequence (x # xs) =
     (case x of None \<Rightarrow> None
      | Some v \<Rightarrow> (case sequence xs of None \<Rightarrow> None | Some vs \<Rightarrow> Some (v # vs)))"

definition divide_all :: "real list \<Rightarrow> real \<Rightarrow> real list option" where
  "divide_all xs d = sequence (map (\<lambda>x. py_div x d) xs)"

definition calculate_nutrition_similarity ::
  "(string \<times> real) list \<Rightarrow> (string \<times> real) list \<Rightarrow> real option" where
  "calculate_nutrition_similarity nutrition1 nutrition2 =
     (let pairs = nutrient_pairs nutrition1 nutrition2;
          values1 = map fst pairs;
          values2 = map snd pairs
      in if values1 = [] \<or> values2 = [] then Some 0
         else
           case divide_all values1 (linalg_norm values1 + 1 / 10 ^ 10) of
             None \<Rightarrow> None
           | Some norm1 \<Rightarrow>
               (case divide_all values2 (linalg_norm values2 + 1 / 10 ^ 10) of
                  None \<Rightarrow> None
                | Some norm2 \<Rightarrow> Some (dot norm1 norm2)))"

definition method_tags :: "vrecipe \<Rightarrow> string set" where
  "method_tags recipe =
     {tag \<in> set (get_tags recipe).
        py_in ''method-'' tag \<or> any_in [''bake'', ''grill'', ''roast'', ''steam'', ''fry''] tag}"

definition calculate_method_similarity :: "vrecipe \<Rightarrow> vrecipe \<Rightarrow> real option" where
  "calculate_method_similarity recipe1 recipe2 =
     (let method_tags1 = method_tags recipe1;
          method_tags2 = method_tags recipe2
      in if method_tags1 = {} \<or> method_tags2 = {}
         then
           let time1 = total_time recipe1;
               time2 = total_time recipe2
           in if time1 > 0 \<and> time2 > 0
              then (case py_div (real_of_int \<bar>time1 - time2\<bar>) (real_of_int (max time1 time2)) of
                      None \<Rightarrow> None
                    | Some time_diff \<Rightarrow> Some (1 - time_diff))
              else Some (5 / 10)
         else
           let intersection = card (method_tags1 \<inter> method_tags2);
               union = card (method_tags1 \<union> method_tags2)
           in if union > 0 then py_div (real intersection) (real union) else Some 0)"

record similarity =
  title_similarity :: real
  ingredient_similarity :: real
  nutrition_similarity :: real
  method_similarity :: real
  combined_score :: real
  is_duplicate :: bool

definition calculate_similarity :: "fuzz \<Rightarrow> vrecipe \<Rightarrow> vrecipe \<Rightarrow> similarity option" where
  "calculate_similarity fz recipe1 recipe2 =
     (let title_sim = calculate_title_similarity fz (get_title recipe1) (get_title recipe2)
      in case calculate_ingredient_similarity (get_ingredients recipe1) (get_ingredients recipe2) of
           None \<Rightarrow> None
         | Some ingredient_sim \<Rightarrow>
        (case calculate_nutrition_similarity (get_nutrition recipe1) (get_nutrition recipe2) of
           None \<Rightarrow> None
         | Some nutrition_sim \<Rightarrow>
        (case calculate_method_similarity recipe1 recipe2 of
           None \<Rightarrow> None
         | Some method_sim \<Rightarrow>
             let combined = 3 / 10 * title_sim + 4 / 10 * ingredient_sim
                            + 2 / 10 * nutrition_sim + 1 / 10 * method_sim
             in Some \<lparr>title_similarity = title_sim, ingredient_similarity = ingredient_sim,
                      nutrition_similarity = nutrition_sim, method_similarity = method_sim,
                      combined_score = combined,
                      is_duplicate = (combined \<ge> combined_threshold)\<rparr>)))"

text \<open>
  The detector's state: the reference list and the title index. The TF-IDF vectors
  (\<open>scikit-learn\<close>) are written by \<open>_build_index\<close> and read by nothing; they are left out.
\<close>

record duplicate_detector =
  existing_recipes :: "vrecipe list"
  recipe_index :: "string \<rightharpoonup> nat"







section \<open>Orchestrator (enhanced\_recipe\_scraper.py)\<close>

record scraper_stats =
  total_scraped :: nat
  passed_validation :: nat
  failed_validation :: nat
  duplicates_found :: nat
  saved_to_firebase :: nat
  errors :: nat

record scraper_state =
  quality_validator :: validation_stats
  recipe_enricher :: enrichment_stats
  tracker :: diversity_tracker
  detector :: duplicate_detector
  stats :: scraper_stats

text \<open>
  \<open>EnhancedRecipeScraper.process_recipe\<close>: the new state and the processed recipe, or
  \<open>None\<close> where the method returns \<open>None\<close>. An exception inside the \<open>try\<close> block (a
  division by zero in a similarity, a matched reference recipe without a title) ends
  in the handler, which counts an error and returns \<open>None\<close>; what was mutated before
  stays mutated. Image processing (step 5) and the time stamp \<open>processedAt\<close> belong to
  external collaborators and write keys that the record does not hold; they are left
  out. The method is given in three parts: the marking of step 2, steps 3 to 6, and the
  whole.
\<close>





section \<open>Scenarios\<close>

text \<open>Concrete candidates and states at which the theorems below are evaluated.\<close>

definition no_recipe :: "'tg recipe" where
  "no_recipe =
     \<lparr>title = None, description = None, ingredients = None, instructions = None,
      nutrition = None, prepTime = None, cookTime = None, tags = None, sourceSite = None,
      seasonalTags = None, cuisine = None, trimesterSuitability = None, batchFriendly = None,
      freezerFriendly = None, shoppingList = None, cookingMethods = None, timeCategory = None,
      potentialDuplicate = None, duplicateOf = None, surplus = None, surplusReasons = None,
      scraper = None, validationStatus = None\<rparr>"

text \<open>The first sample of \<open>example_diversity_tracking\<close> in example\_usage.py.\<close>

definition greek_salad :: vrecipe where
  "greek_salad =
     no_recipe\<lparr>title := Some ''Greek Salad'', cuisine := Some ''mediterranean'',
               tags := Some [''lunch'', ''salad'']\<rparr>"

text \<open>\<open>n\<close> calls of \<open>add_recipe\<close> with the same candidate.\<close>

definition add_times :: "nat \<Rightarrow> vrecipe \<Rightarrow> diversity_tracker \<Rightarrow> diversity_tracker" where
  "add_times n recipe tr = ((\<lambda>t. fst (tracker_add_recipe t recipe)) ^^ n) tr"

definition fresh_validator :: validation_stats where
  "fresh_validator = \<lparr>total_validated = 0, passed = 0, failed = 0, warned = 0\<rparr>"

text \<open>Scenario A of the specification: a breakfast with carbs 35 g, fiber 4 g,
  protein 12 g and 20 minutes in total; every required field is present.\<close>

definition scenario_A :: vrecipe where
  "scenario_A =
     no_recipe\<lparr>title := Some ''Oat Bowl'',
       ingredients := Some [\<lparr>ing_name = Some ''oats'', ing_amount = Some 1, ing_unit = Some ''cup''\<rparr>,
                            \<lparr>ing_name = Some ''milk'', ing_amount = Some 1, ing_unit = Some ''cup''\<rparr>,
                            \<lparr>ing_name = Some ''eggs'', ing_amount = Some 2, ing_unit = None\<rparr>],
       instructions := Some [''Mix'', ''Cook''],
       nutrition := Some [(''calories'', 300), (''carbs'', 35), (''fiber'', 4), (''protein'', 12)],
       prepTime := Some 5, cookTime := Some 15,
       tags := Some [''breakfast'']\<rparr>"

text \<open>A candidate without ingredients whose instructions mention frying.\<close>

definition fried_without_ingredients :: vrecipe where
  "fried_without_ingredients = no_recipe\<lparr>instructions := Some [''Serve fried'']\<rparr>"

text \<open>A candidate without tags, with a neutral title and exactly 200 calories.\<close>

definition plain_200 :: vrecipe where
  "plain_200 = no_recipe\<lparr>title := Some ''Veggie Wrap'', nutrition := Some [(''calories'', 200)]\<rparr>"

section \<open>The glycemic-index estimate as the specification words it\<close>

text \<open>
  Written from the specification (section 4.1), for comparison with
  \<open>estimate_glycemic_index\<close>: the matches of the three vocabularies in the lower-cased
  ingredient names joined by spaces, plus one low match when the instructions mention
  "raw" or "fresh" and one high match when they mention "fried" or "deep fry".
\<close>

definition spec_gi_counts :: "vrecipe \<Rightarrow> nat \<times> nat \<times> nat" where
  "spec_gi_counts recipe =
     (let names = py_join '' '' (map (\<lambda>ing. lower (get_name ing)) (get_ingredients recipe));
          instrs = lower (py_join '' '' (get_instructions recipe))
      in (count_in GI_low names + (if py_in ''raw'' instrs \<or> py_in ''fresh'' instrs then 1 else 0),
          count_in GI_medium names,
          count_in GI_high names
            + (if py_in ''fried'' instrs \<or> py_in ''deep fry'' instrs then 1 else 0)))"

definition spec_estimate_gi :: "vrecipe \<Rightarrow> glycemic_index" where
  "spec_estimate_gi recipe =
     (case spec_gi_counts recipe of
        (low, medium, high) \<Rightarrow>
          if low + medium + high = 0 then GI_Unknown
          else if (real low * 1 + real medium * 2 + real high * 3) / real (low + medium + high)
                  \<le> 15 / 10 then GI_Low
          else if (real low * 1 + real medium * 2 + real high * 3) / real (low + medium + high)
                  \<le> 25 / 10 then GI_Medium
          else GI_High)"

text \<open>A candidate whose nutrition mapping has fat 20 and no carbs key.\<close>

definition fat_without_carbs :: vrecipe where
  "fat_without_carbs =
     no_recipe\<lparr>title := Some ''Avocado Boats'', nutrition := Some [(''fat'', 20)]\<rparr>"

text \<open>The same dish with the carbs stated.\<close>

definition fat_low_carbs :: vrecipe where
  "fat_low_carbs =
     no_recipe\<lparr>title := Some ''Avocado Boats'', nutrition := Some [(''carbs'', 8), (''fat'', 20)]\<rparr>"



text \<open>The two bowls of \<open>example_duplicate_detection\<close> in example\_usage.py.\<close>

definition quinoa_bowl :: vrecipe where
  "quinoa_bowl =
     no_recipe\<lparr>title := Some ''Quinoa Vegetable Bowl'',
       ingredients := Some [\<lparr>ing_name = Some ''quinoa'', ing_amount = Some 1, ing_unit = Some ''cup''\<rparr>,
                            \<lparr>ing_name = Some ''mixed vegetables'', ing_amount = Some 2,
                              ing_unit = Some ''cups''\<rparr>],
       nutrition := Some [(''calories'', 320), (''carbs'', 45), (''protein'', 12)]\<rparr>"


definition fresh_enricher :: enrichment_stats where
  "fresh_enricher =
     \<lparr>total_enriched = 0, stat_seasonal_tags = 0, stat_cuisine_tags = 0,
      stat_trimester_tags = 0, stat_batch_tags = 0\<rparr>"

text \<open>The caller's dictionary \<open>{'title': 'Tea', 'tags': ['dinner']}\<close>: its tag list
  is the list object at address 0.\<close>

definition tea_heap :: heap where
  "tea_heap = \<lparr>cells = (\<lambda>_. [])(0 := [''dinner'']), next_free = 1\<rparr>"

definition tea :: rrecipe where
  "tea = no_recipe\<lparr>title := Some ''Tea'', tags := Some 0\<rparr>"







section \<open>What the enricher does to the tag list\<close>

text \<open>A list of tags none of which is one of the four meal names that the tracker
  looks for.\<close>

definition no_meal_name :: "string list \<Rightarrow> bool" where
  "no_meal_name ts = list_all (\<lambda>t. t \<notin> set [''breakfast'', ''lunch'', ''dinner'', ''snacks'']) ts"

text \<open>During a run of \<open>enrich_recipe\<close> on the dictionary \<open>r\<close>: the list at address \<open>a\<close> is
  its content \<open>base\<close> at the start followed by added tags, none of them a meal name;
  the address is in use; \<open>enriched\<close> still refers to that list and has the title, the nutrition and the
  surplus mark of \<open>r\<close>.\<close>

definition tags_extended :: "string list \<Rightarrow> addr \<Rightarrow> rrecipe \<Rightarrow> enrich_run \<Rightarrow> bool" where
  "tags_extended base a r run =
     (\<exists>added. cells (fst (snd run)) a = base @ added \<and> no_meal_name added
        \<and> a < next_free (fst (snd run))
        \<and> title (snd (snd run)) = title r \<and> nutrition (snd (snd run)) = nutrition r
        \<and> tags (snd (snd run)) = Some a)"

lemma validate_recipe_passed_iff:
  "fst (snd (validate_recipe vstats recipe)) = (fst (snd (snd (validate_recipe vstats recipe))) = [])"
  by (simp add: validate_recipe_def Let_def split: prod.splits)

section \<open>Properties of the diversity tracker\<close>

lemma update_stats_total_count:
  "total_count (update_stats tr r m c ss p tg) = total_count tr + 1"
  by (simp add: update_stats_def track_ingredient_diversity_def Let_def)

lemma update_stats_by_meal_type:
  "by_meal_type (update_stats tr r m c ss p tg) = inc (by_meal_type tr) m"
  by (simp add: update_stats_def track_ingredient_diversity_def Let_def)

lemma update_stats_by_cuisine:
  "by_cuisine (update_stats tr r m c ss p tg) =
     (if c \<noteq> [] then inc (by_cuisine tr) c else by_cuisine tr)"
  by (simp add: update_stats_def track_ingredient_diversity_def Let_def)

lemma update_stats_signatures:
  "recipe_signatures (update_stats tr r m c ss p tg) =
     insert (create_recipe_signature r) (recipe_signatures tr)"
  by (simp add: update_stats_def track_ingredient_diversity_def Let_def)

lemma add_admit:
  "fst (snd (tracker_add_recipe tr r)) =
     (\<not> (by_meal_type tr (get_meal_type r)
            \<ge> dict_get COLLECTION_TARGETS_by_meal_type (get_meal_type r) 90)
      \<and> \<not> (get_or ''other'' (cuisine r) \<noteq> []
            \<and> by_cuisine tr (get_or ''other'' (cuisine r))
                \<ge> dict_get COLLECTION_TARGETS_by_cuisine (get_or ''other'' (cuisine r)) 40))"
  by (simp add: tracker_add_recipe_def Let_def)

lemma add_surplus_unchanged:
  "\<not> fst (snd (tracker_add_recipe tr r)) \<Longrightarrow> fst (tracker_add_recipe tr r) = tr"
  by (simp add: tracker_add_recipe_def Let_def split: if_splits)

lemma add_admitted:
  "fst (snd (tracker_add_recipe tr r)) \<Longrightarrow>
   fst (tracker_add_recipe tr r) =
     (update_stats tr r (get_meal_type r) (get_or ''other'' (cuisine r))
        (get_or [] (seasonalTags r)) (get_or ''quick-meals'' (timeCategory r)) (get_tags r))
       \<lparr>recipes := recipes tr @
          [\<lparr>entry_title = title r, entry_meal_type = get_meal_type r,
            entry_cuisine = get_or ''other'' (cuisine r),
            entry_seasons = get_or [] (seasonalTags r)\<rparr>]\<rparr>"
  by (auto simp: tracker_add_recipe_def Let_def)

lemma add_by_cuisine_empty:
  "by_cuisine (fst (tracker_add_recipe tr r)) [] = by_cuisine tr []"
  by (cases "fst (snd (tracker_add_recipe tr r))")
     (simp_all add: add_admitted add_surplus_unchanged update_stats_by_cuisine inc_def)

text \<open>No call of \<open>add_recipe\<close> counts the empty cuisine: \<open>_update_stats\<close> skips a cuisine
  that is not truthy.\<close>

lemma reachable_empty_cuisine: "reachable tr \<Longrightarrow> by_cuisine tr [] = 0"
proof (induction rule: reachable.induct)
  case reachable_init
  show ?case by (simp add: initialize_stats_def)
next
  case (reachable_add tr recipe)
  then show ?case by (simp add: add_by_cuisine_empty)
qed

lemma cuisine_target_positive: "0 < dict_get COLLECTION_TARGETS_by_cuisine c 40"
  by (simp add: dict_get_def COLLECTION_TARGETS_by_cuisine_def)

lemma reachable_add_times: "reachable tr \<Longrightarrow> reachable (add_times n r tr)"
  by (induction n) (simp_all add: add_times_def reachable_add)

lemma greek_salad_meal_type: "get_meal_type greek_salad = ''lunch''"
  by code_simp

lemma greek_salad_cuisine: "get_or ''other'' (cuisine greek_salad) = ''mediterranean''"
  by code_simp

lemma lunch_target: "dict_get COLLECTION_TARGETS_by_meal_type ''lunch'' 90 = 90"
  by (simp add: dict_get_def COLLECTION_TARGETS_by_meal_type_def)

lemma mediterranean_target: "dict_get COLLECTION_TARGETS_by_cuisine ''mediterranean'' 40 = 60"
  by (simp add: dict_get_def COLLECTION_TARGETS_by_cuisine_def)

text \<open>Adding the same mediterranean lunch \<open>n\<close> times to a fresh tracker counts it
  \<open>n\<close> times, up to the cuisine target of 60.\<close>

lemma greek_salad_counts:
  "n \<le> 60 \<Longrightarrow>
   by_meal_type (add_times n greek_salad initialize_stats) ''lunch'' = n \<and>
   by_cuisine (add_times n greek_salad initialize_stats) ''mediterranean'' = n \<and>
   total_count (add_times n greek_salad initialize_stats) = n"
proof (induction n)
  case 0
  show ?case by (simp add: add_times_def initialize_stats_def)
next
  case (Suc n)
  let ?tr = "add_times n greek_salad initialize_stats"
  from Suc have counts: "by_meal_type ?tr ''lunch'' = n" "by_cuisine ?tr ''mediterranean'' = n"
    "total_count ?tr = n" and n: "n < 60"
    by simp_all
  have admitted: "fst (snd (tracker_add_recipe ?tr greek_salad))"
    using counts n
    by (simp add: add_admit greek_salad_meal_type greek_salad_cuisine lunch_target
        mediterranean_target)
  have step: "add_times (Suc n) greek_salad initialize_stats
              = fst (tracker_add_recipe ?tr greek_salad)"
    by (simp add: add_times_def)
  show ?case
    using counts
    by (simp add: step add_admitted [OF admitted] update_stats_by_meal_type
        update_stats_by_cuisine update_stats_total_count greek_salad_meal_type
        greek_salad_cuisine inc_def)
qed

text \<open>
  C1. Admission rule of the diversity tracker. In every tracker that a run reaches,
  \<open>add_recipe\<close> answers \<open>should_add = False\<close> exactly when the counter of the
  candidate's meal type has reached that meal type's target or the counter of its
  cuisine has reached that cuisine's target, and \<open>True\<close> otherwise. In particular a
  candidate whose meal-type counter equals the target is surplus.
\<close>

theorem add_recipe_admission_rule:
  assumes "reachable tr"
  shows "fst (snd (tracker_add_recipe tr recipe)) =
           (\<not> (by_meal_type tr (get_meal_type recipe)
                  \<ge> dict_get COLLECTION_TARGETS_by_meal_type (get_meal_type recipe) 90
                \<or> by_cuisine tr (get_or ''other'' (cuisine recipe))
                  \<ge> dict_get COLLECTION_TARGETS_by_cuisine (get_or ''other'' (cuisine recipe)) 40))
         \<and> (by_meal_type tr (get_meal_type recipe)
               = dict_get COLLECTION_TARGETS_by_meal_type (get_meal_type recipe) 90
             \<longrightarrow> \<not> fst (snd (tracker_add_recipe tr recipe)))"
proof -
  let ?c = "get_or ''other'' (cuisine recipe)"
  have "\<not> (by_cuisine tr ?c \<ge> dict_get COLLECTION_TARGETS_by_cuisine ?c 40)" if "?c = []"
    using that reachable_empty_cuisine [OF assms] cuisine_target_positive [of "[]"] by simp
  then show ?thesis
    by (auto simp: add_admit)
qed

text \<open>Scenario D of the specification: after 60 admitted mediterranean lunches the
  next one is surplus, although its meal-type counter (60) is below the target (90).\<close>

theorem add_recipe_admission_rule_witness:
  "reachable (add_times 60 greek_salad initialize_stats)
   \<and> \<not> fst (snd (tracker_add_recipe (add_times 60 greek_salad initialize_stats) greek_salad))
   \<and> fst (snd (tracker_add_recipe (add_times 59 greek_salad initialize_stats) greek_salad))"
proof -
  have r60: "reachable (add_times 60 greek_salad initialize_stats)"
    and r59: "reachable (add_times 59 greek_salad initialize_stats)"
    by (rule reachable_add_times [OF reachable_init])+
  show ?thesis
    using r60 add_recipe_admission_rule [OF r60, of greek_salad]
      add_recipe_admission_rule [OF r59, of greek_salad]
      greek_salad_counts [of 60] greek_salad_counts [of 59]
    by (simp add: greek_salad_meal_type greek_salad_cuisine lunch_target mediterranean_target)
qed

lemma add_signature_recorded:
  "fst (snd (tracker_add_recipe tr r)) \<Longrightarrow>
   create_recipe_signature r \<in> recipe_signatures (fst (tracker_add_recipe tr r))"
  by (simp add: add_admitted update_stats_signatures)

lemma greek_salad_first_admitted:
  "fst (snd (tracker_add_recipe initialize_stats greek_salad))"
  using greek_salad_counts [of 0]
  by (simp add: add_admit add_times_def greek_salad_meal_type greek_salad_cuisine lunch_target
      mediterranean_target)

lemma greek_salad_second_admitted:
  "fst (snd (tracker_add_recipe (fst (tracker_add_recipe initialize_stats greek_salad)) greek_salad))"
  using greek_salad_counts [of 1]
  by (simp add: add_admit add_times_def greek_salad_meal_type greek_salad_cuisine lunch_target
      mediterranean_target)

text \<open>
  C2, as stated, fails: the Greek salad is committed to a fresh tracker, and the same
  candidate (the same signature, which \<open>check_duplicate\<close> finds in the signature set)
  is processed again; \<open>add_recipe\<close> admits it again and the total count goes from 1
  to 2.
\<close>

theorem reprocessing_counts_again_counterexample:
  "check_duplicate (fst (tracker_add_recipe initialize_stats greek_salad)) greek_salad
   \<and> total_count (fst (tracker_add_recipe initialize_stats greek_salad)) = 1
   \<and> total_count (fst (tracker_add_recipe
                          (fst (tracker_add_recipe initialize_stats greek_salad)) greek_salad)) = 2"
proof -
  have one: "total_count (fst (tracker_add_recipe initialize_stats greek_salad)) = 1"
    using greek_salad_counts [of 1] by (simp add: add_times_def)
  have two: "total_count (fst (tracker_add_recipe
               (fst (tracker_add_recipe initialize_stats greek_salad)) greek_salad)) = 2"
    using greek_salad_counts [of 2] by (simp add: add_times_def numeral_2_eq_2)
  show ?thesis
    using one two add_signature_recorded [OF greek_salad_first_admitted]
    by (simp add: check_duplicate_def)
qed

text \<open>
  C2, amended. After a candidate \<open>R\<close> is committed, \<open>check_duplicate\<close> reports every
  candidate with the signature of \<open>R\<close>, but \<open>add_recipe\<close> does not consult the signature
  set: such a candidate leaves the tracker (every counter and both matrices) unchanged
  exactly when it is marked surplus; when it is admitted the total count and its
  meal-type counter grow by one, and only the signature set stays as it is.
\<close>

theorem reprocessing_same_signature:
  assumes "fst (snd (tracker_add_recipe tr R))"
    and "create_recipe_signature R' = create_recipe_signature R"
  shows "check_duplicate (fst (tracker_add_recipe tr R)) R'
         \<and> (if fst (snd (tracker_add_recipe (fst (tracker_add_recipe tr R)) R'))
            then total_count (fst (tracker_add_recipe (fst (tracker_add_recipe tr R)) R'))
                   = total_count (fst (tracker_add_recipe tr R)) + 1
                 \<and> by_meal_type (fst (tracker_add_recipe (fst (tracker_add_recipe tr R)) R'))
                     (get_meal_type R')
                   = by_meal_type (fst (tracker_add_recipe tr R)) (get_meal_type R') + 1
                 \<and> recipe_signatures (fst (tracker_add_recipe (fst (tracker_add_recipe tr R)) R'))
                   = recipe_signatures (fst (tracker_add_recipe tr R))
            else fst (tracker_add_recipe (fst (tracker_add_recipe tr R)) R')
                   = fst (tracker_add_recipe tr R))"
proof -
  let ?tr1 = "fst (tracker_add_recipe tr R)"
  have dup: "create_recipe_signature R' \<in> recipe_signatures ?tr1"
    using add_signature_recorded [OF assms(1)] assms(2) by simp
  show ?thesis
  proof (cases "fst (snd (tracker_add_recipe ?tr1 R'))")
    case True
    then show ?thesis
      using dup
      by (simp add: check_duplicate_def add_admitted update_stats_total_count
          update_stats_by_meal_type update_stats_signatures inc_def insert_absorb)
  next
    case False
    then show ?thesis
      using dup by (simp add: check_duplicate_def add_surplus_unchanged)
  qed
qed

theorem reprocessing_same_signature_witness:
  "fst (snd (tracker_add_recipe initialize_stats greek_salad))
   \<and> check_duplicate (fst (tracker_add_recipe initialize_stats greek_salad)) greek_salad
   \<and> total_count (fst (tracker_add_recipe
                          (fst (tracker_add_recipe initialize_stats greek_salad)) greek_salad))
       = total_count (fst (tracker_add_recipe initialize_stats greek_salad)) + 1"
  using reprocessing_same_signature [OF greek_salad_first_admitted, of greek_salad]
    greek_salad_first_admitted greek_salad_second_admitted
  by simp

section \<open>Properties of the quality validator\<close>

lemma validate_errors:
  "fst (snd (snd (validate_recipe vs r))) =
     validate_required_fields r
     @ fst (validate_nutrition (get_nutrition r) (GD_GUIDELINES (determine_meal_type r)))
     @ (if estimate_glycemic_index r = GI_High then [HighGlycemicIndex] else [])"
  by (simp add: validate_recipe_def Let_def split: prod.splits)

lemma validate_warnings:
  "snd (snd (snd (validate_recipe vs r))) =
     snd (validate_nutrition (get_nutrition r) (GD_GUIDELINES (determine_meal_type r)))
     @ (if total_time r > max_prep_time then [TotalTimeExceeds (total_time r)] else [])
     @ validate_ingredients (get_ingredients r)
     @ (if estimate_glycemic_index r = GI_Unknown then [UnknownGlycemicIndex] else [])
     @ (if check_allergens (get_ingredients r) \<noteq> []
        then [ContainsAllergens (check_allergens (get_ingredients r))] else [])"
  by (auto simp: validate_recipe_def Let_def split: prod.splits)

lemma breakfast_is_meal:
  "''breakfast'' \<in> set (get_tags r) \<Longrightarrow> ''snack'' \<notin> set (get_tags r)
   \<Longrightarrow> ''appetizer'' \<notin> set (get_tags r) \<Longrightarrow> determine_meal_type r = ''meals''"
  by (simp add: determine_meal_type_def Let_def)

lemma snack_tag_is_snacks:
  "''snack'' \<in> set (get_tags r) \<or> ''appetizer'' \<in> set (get_tags r)
   \<Longrightarrow> determine_meal_type r = ''snacks''"
  by (auto simp: determine_meal_type_def Let_def)

lemma nutrition_errors_35_4_meal:
  "dict_get n ''carbs'' 0 = 35 \<Longrightarrow> dict_get n ''fiber'' 0 = 4
   \<Longrightarrow> fst (validate_nutrition n (GD_GUIDELINES ''meals'')) = [FiberTooLow 4 5]"
  by (simp add: validate_nutrition_def GD_GUIDELINES_def Let_def)

lemma nutrition_errors_35_4_snack:
  "dict_get n ''carbs'' 0 = 35 \<Longrightarrow> dict_get n ''fiber'' 0 = 4
   \<Longrightarrow> fst (validate_nutrition n (GD_GUIDELINES ''snacks'')) = [CarbsTooHigh 35 30]"
  by (simp add: validate_nutrition_def GD_GUIDELINES_def Let_def)

lemma nutrition_warnings_protein_12_meal:
  "dict_get n ''protein'' 0 = 12
   \<Longrightarrow> ProteinLow 12 15 \<in> set (snd (validate_nutrition n (GD_GUIDELINES ''meals'')))"
  by (simp add: validate_nutrition_def GD_GUIDELINES_def Let_def)

lemma nutrition_warnings_no_time:
  "TotalTimeExceeds t \<notin> set (snd (validate_nutrition n g))"
  by (simp add: validate_nutrition_def Let_def)

lemma ingredient_warnings_no_time: "TotalTimeExceeds t \<notin> set (validate_ingredients ings)"
  by (simp add: validate_ingredients_def Let_def)

lemma scenario_A_facts:
  "get_tags scenario_A = [''breakfast'']"
  "dict_get (get_nutrition scenario_A) ''carbs'' 0 = 35"
  "dict_get (get_nutrition scenario_A) ''fiber'' 0 = 4"
  "dict_get (get_nutrition scenario_A) ''protein'' 0 = 12"
  "total_time scenario_A = 20"
  "validate_required_fields scenario_A = []"
  by code_simp+

lemma scenario_A_gi: "estimate_glycemic_index scenario_A = GI_Low"
  by code_simp

text \<open>
  C4, as stated, fails: Scenario A has every required field, the tag breakfast,
  carbs 35, fiber 4, protein 12 and 20 minutes, and the validator rejects it with the
  single blocking error "Fiber too low: 4g (minimum 5g)".
\<close>

theorem scenario_A_counterexample:
  "''breakfast'' \<in> set (get_tags scenario_A)
   \<and> dict_get (get_nutrition scenario_A) ''carbs'' 0 = 35
   \<and> dict_get (get_nutrition scenario_A) ''fiber'' 0 = 4
   \<and> dict_get (get_nutrition scenario_A) ''protein'' 0 = 12
   \<and> total_time scenario_A = 20
   \<and> validate_required_fields scenario_A = []
   \<and> \<not> fst (snd (validate_recipe fresh_validator scenario_A))
   \<and> fst (snd (snd (validate_recipe fresh_validator scenario_A))) = [FiberTooLow 4 5]"
proof -
  have meal: "determine_meal_type scenario_A = ''meals''"
    by (rule breakfast_is_meal) (simp_all add: scenario_A_facts)
  have errs: "fst (snd (snd (validate_recipe fresh_validator scenario_A))) = [FiberTooLow 4 5]"
    by (simp add: validate_errors meal scenario_A_facts scenario_A_gi
        nutrition_errors_35_4_meal)
  show ?thesis
    by (simp add: validate_recipe_passed_iff errs scenario_A_facts)
qed

text \<open>
  C4, amended. Every candidate tagged breakfast whose nutrition has carbs 35 g,
  fiber 4 g and protein 12 g and whose total time is 20 minutes is rejected by the
  validator: meals need at least 5 g of fiber, so the blocking errors contain
  "Fiber too low: 4g (minimum 5g)" (or, when the candidate is also tagged snack or
  appetizer, "Carbs too high: 35g (maximum 30g)"). The low protein is a warning only
  and the total time raises no warning.
\<close>

theorem scenario_A_rejected:
  assumes "''breakfast'' \<in> set (get_tags r)"
    and "dict_get (get_nutrition r) ''carbs'' 0 = 35"
    and "dict_get (get_nutrition r) ''fiber'' 0 = 4"
    and "dict_get (get_nutrition r) ''protein'' 0 = 12"
    and "total_time r = 20"
  shows "\<not> fst (snd (validate_recipe vs r))
         \<and> (if ''snack'' \<in> set (get_tags r) \<or> ''appetizer'' \<in> set (get_tags r)
            then CarbsTooHigh 35 30 \<in> set (fst (snd (snd (validate_recipe vs r))))
            else FiberTooLow 4 5 \<in> set (fst (snd (snd (validate_recipe vs r))))
                 \<and> ProteinLow 12 15 \<in> set (snd (snd (snd (validate_recipe vs r)))))
         \<and> TotalTimeExceeds 20 \<notin> set (snd (snd (snd (validate_recipe vs r))))"
proof (cases "''snack'' \<in> set (get_tags r) \<or> ''appetizer'' \<in> set (get_tags r)")
  case True
  then have "determine_meal_type r = ''snacks''"
    by (rule snack_tag_is_snacks)
  then show ?thesis
    using True assms
    by (simp add: validate_recipe_passed_iff validate_errors validate_warnings
        nutrition_errors_35_4_snack nutrition_warnings_no_time ingredient_warnings_no_time
        max_prep_time_def)
next
  case False
  then have "determine_meal_type r = ''meals''"
    using assms(1) by (simp add: breakfast_is_meal)
  then show ?thesis
    using False assms
    by (simp add: validate_recipe_passed_iff validate_errors validate_warnings
        nutrition_errors_35_4_meal nutrition_warnings_protein_12_meal
        nutrition_warnings_no_time ingredient_warnings_no_time max_prep_time_def)
qed

theorem scenario_A_rejected_witness:
  "''breakfast'' \<in> set (get_tags scenario_A)
   \<and> total_time scenario_A = 20
   \<and> \<not> fst (snd (validate_recipe fresh_validator scenario_A))
   \<and> FiberTooLow 4 5 \<in> set (fst (snd (snd (validate_recipe fresh_validator scenario_A))))
   \<and> ProteinLow 12 15 \<in> set (snd (snd (snd (validate_recipe fresh_validator scenario_A))))"
  using scenario_A_rejected [of scenario_A fresh_validator]
  by (simp add: scenario_A_facts)

lemma estimate_glycemic_index_no_ingredients:
  "get_ingredients r = [] \<Longrightarrow> estimate_glycemic_index r = GI_Unknown"
  by (simp add: estimate_glycemic_index_def)

text \<open>
  C5, as stated, fails: a candidate without ingredients whose instructions mention
  "fried" has one high match in the specification's count, hence the estimate high,
  and the code answers unknown before it looks at the instructions.
\<close>

theorem estimate_gi_counterexample:
  "spec_gi_counts fried_without_ingredients = (0, 0, 1)
   \<and> spec_estimate_gi fried_without_ingredients = GI_High
   \<and> estimate_glycemic_index fried_without_ingredients = GI_Unknown"
proof -
  have counts: "spec_gi_counts fried_without_ingredients = (0, 0, 1)"
    by code_simp
  have "get_ingredients fried_without_ingredients = []"
    by code_simp
  then show ?thesis
    by (simp add: counts spec_estimate_gi_def estimate_glycemic_index_no_ingredients)
qed

text \<open>
  C5, amended. For every candidate with at least one ingredient the estimate is the
  one of the specification: unknown exactly when the three counts are all zero,
  otherwise low, medium or high by the weighted average against 1.5 and 2.5. A
  candidate without ingredients gets unknown, whatever its instructions say.
\<close>

theorem estimate_gi_amended:
  "estimate_glycemic_index r =
     (if get_ingredients r = [] then GI_Unknown else spec_estimate_gi r)
   \<and> (get_ingredients r \<noteq> [] \<longrightarrow>
        (estimate_glycemic_index r = GI_Unknown
           \<longleftrightarrow> fst (spec_gi_counts r) + fst (snd (spec_gi_counts r))
                 + snd (snd (spec_gi_counts r)) = 0))"
  by (auto simp: estimate_glycemic_index_def spec_estimate_gi_def spec_gi_counts_def Let_def
      add.commute add.left_commute)

theorem estimate_gi_amended_witness:
  "get_ingredients scenario_A \<noteq> []
   \<and> estimate_glycemic_index scenario_A = spec_estimate_gi scenario_A
   \<and> spec_estimate_gi scenario_A = GI_Low"
proof -
  have "get_ingredients scenario_A \<noteq> []"
    by code_simp
  then show ?thesis
    using estimate_gi_amended [of scenario_A] scenario_A_gi by simp
qed

section \<open>Properties of the enricher's diet tags\<close>

lemma keto_tag_iff:
  "''keto-friendly'' \<in> set (identify_special_diets r)
     \<longleftrightarrow> dict_get (get_nutrition r) ''carbs'' 999 < 10 \<and> dict_get (get_nutrition r) ''fat'' 0 > 15"
  by (simp add: identify_special_diets_def Let_def)

text \<open>
  C9, as stated, fails: with fat 20 and no carbs key the diet tags do not contain
  keto-friendly; the absent carbs value counts as 999 there, not as 0.
\<close>

theorem keto_default_counterexample:
  "map_of (get_nutrition fat_without_carbs) ''carbs'' = None
   \<and> dict_get (get_nutrition fat_without_carbs) ''fat'' 0 = 20
   \<and> ''keto-friendly'' \<notin> set (identify_special_diets fat_without_carbs)"
proof -
  have "get_nutrition fat_without_carbs = [(''fat'', 20)]"
    by code_simp
  then show ?thesis
    by (simp add: keto_tag_iff dict_get_def)
qed

text \<open>
  C9, amended. The enricher's diet tags contain keto-friendly exactly when the
  nutrition mapping has a carbs value below 10 and a fat value above 15; a candidate
  whose nutrition mapping omits the carbs key never gets the tag from the enricher
  (its carbs count as 999), whatever its fat value.
\<close>

theorem keto_tagging:
  "(''keto-friendly'' \<in> set (identify_special_diets r)
      \<longleftrightarrow> (\<exists>c. map_of (get_nutrition r) ''carbs'' = Some c \<and> c < 10)
          \<and> dict_get (get_nutrition r) ''fat'' 0 > 15)
   \<and> (map_of (get_nutrition r) ''carbs'' = None
        \<longrightarrow> ''keto-friendly'' \<notin> set (identify_special_diets r))"
  by (auto simp: keto_tag_iff dict_get_def split: option.splits)

theorem keto_tagging_witness:
  "map_of (get_nutrition fat_low_carbs) ''carbs'' = Some 8
   \<and> ''keto-friendly'' \<in> set (identify_special_diets fat_low_carbs)
   \<and> map_of (get_nutrition fat_without_carbs) ''carbs'' = None
   \<and> ''keto-friendly'' \<notin> set (identify_special_diets fat_without_carbs)"
proof -
  have low: "get_nutrition fat_low_carbs = [(''carbs'', 8), (''fat'', 20)]"
    and without: "get_nutrition fat_without_carbs = [(''fat'', 20)]"
    by code_simp+
  show ?thesis
    using keto_tagging [of fat_low_carbs] keto_tagging [of fat_without_carbs]
    by (simp add: low without dict_get_def)
qed

section \<open>Properties of the duplicate detector\<close>












lemma linalg_norm_nonneg: "0 \<le> linalg_norm xs"
  by (auto simp: linalg_norm_def intro!: sum_list_nonneg)

lemma divide_all_defined: "d \<noteq> 0 \<Longrightarrow> divide_all xs d = Some (map (\<lambda>x. x / d) xs)"
  by (induction xs) (simp_all add: divide_all_def py_div_def)

lemma norm_divisor_nonzero: "linalg_norm xs + 1 / 10 ^ 10 \<noteq> 0"
proof -
  have "0 < linalg_norm xs + 1 / 10 ^ 10"
    using linalg_norm_nonneg [of xs] by (simp add: add_nonneg_pos)
  then show ?thesis by simp
qed

lemma ingredient_similarity_defined: "calculate_ingredient_similarity i1 i2 \<noteq> None"
  by (simp add: calculate_ingredient_similarity_def Let_def py_div_def del: not_None_eq)

lemma nutrition_similarity_defined: "calculate_nutrition_similarity n1 n2 \<noteq> None"
  unfolding calculate_nutrition_similarity_def Let_def
    divide_all_defined [OF norm_divisor_nonzero]
  by (simp del: not_None_eq)

lemma method_similarity_defined: "calculate_method_similarity r1 r2 \<noteq> None"
proof (cases "method_tags r1 = {} \<or> method_tags r2 = {}")
  case True
  show ?thesis
  proof (cases "0 < total_time r1 \<and> 0 < total_time r2")
    case times: True
    then have "real_of_int (max (total_time r1) (total_time r2)) \<noteq> 0"
      by (simp add: max_def)
    then show ?thesis
      using True times
      by (simp add: calculate_method_similarity_def Let_def py_div_def del: not_None_eq)
  next
    case False
    have c1: "(method_tags r1 = {} \<or> method_tags r2 = {}) = True"
      using True by simp
    have c2: "(0 < total_time r1 \<and> 0 < total_time r2) = False"
      using False by simp
    show ?thesis
      unfolding calculate_method_similarity_def Let_def c1 c2
      by (simp only: if_True if_False option.distinct not_False_eq_True)
  qed
next
  case False
  then show ?thesis
    by (simp add: calculate_method_similarity_def Let_def py_div_def del: not_None_eq)
qed

lemma calculate_similarity_defined: "calculate_similarity fz r1 r2 \<noteq> None"
proof -
  obtain a b c where
    "calculate_ingredient_similarity (get_ingredients r1) (get_ingredients r2) = Some a"
    "calculate_nutrition_similarity (get_nutrition r1) (get_nutrition r2) = Some b"
    "calculate_method_similarity r1 r2 = Some c"
    using ingredient_similarity_defined [of "get_ingredients r1" "get_ingredients r2"]
      nutrition_similarity_defined [of "get_nutrition r1" "get_nutrition r2"]
      method_similarity_defined [of r1 r2]
    by auto
  then show ?thesis
    by (simp add: calculate_similarity_def Let_def)
qed

lemma no_comparable_nutrient:
  "list_all (\<lambda>k. dict_get n1 k 0 = 0 \<and> dict_get n2 k 0 = 0) key_nutrients
   \<Longrightarrow> nutrient_pairs n1 n2 = []"
  by (simp add: nutrient_pairs_def key_nutrients_def)

text \<open>
  C7. Similarity on degenerate inputs. When the set of main ingredients of either
  recipe is empty the ingredient similarity is 0.0; when each of the seven nutrients
  is zero or absent in both recipes the nutrition similarity is 0.0; and no similarity
  computation divides by zero: every component score and the combined result are
  defined for every pair of recipes.
\<close>

theorem similarity_total:
  "(main_ingredient_names i1 = {} \<or> main_ingredient_names i2 = {}
      \<longrightarrow> calculate_ingredient_similarity i1 i2 = Some 0)
   \<and> (list_all (\<lambda>k. dict_get n1 k 0 = 0 \<and> dict_get n2 k 0 = 0) key_nutrients
      \<longrightarrow> calculate_nutrition_similarity n1 n2 = Some 0)
   \<and> (\<exists>v. calculate_ingredient_similarity i1 i2 = Some v)
   \<and> (\<exists>v. calculate_nutrition_similarity n1 n2 = Some v)
   \<and> (\<exists>v. calculate_method_similarity A B = Some v)
   \<and> (\<exists>s. calculate_similarity fz A B = Some s)"
proof -
  have "calculate_ingredient_similarity i1 i2 = Some 0"
    if "main_ingredient_names i1 = {} \<or> main_ingredient_names i2 = {}"
    using that by (auto simp: calculate_ingredient_similarity_def Let_def)
  moreover have "calculate_nutrition_similarity n1 n2 = Some 0"
    if "list_all (\<lambda>k. dict_get n1 k 0 = 0 \<and> dict_get n2 k 0 = 0) key_nutrients"
    using no_comparable_nutrient [OF that] by (simp add: calculate_nutrition_similarity_def)
  ultimately show ?thesis
    using ingredient_similarity_defined [of i1 i2] nutrition_similarity_defined [of n1 n2]
      method_similarity_defined [of A B] calculate_similarity_defined [of fz A B]
    by simp
qed

theorem similarity_total_witness:
  "main_ingredient_names [] = {}
   \<and> calculate_ingredient_similarity [] (get_ingredients quinoa_bowl) = Some 0
   \<and> calculate_nutrition_similarity [] [(''calories'', 0)] = Some 0"
proof -
  have empty: "main_ingredient_names [] = {}"
    by (simp add: main_ingredient_names_def)
  have zero: "list_all (\<lambda>k. dict_get [] k 0 = (0::real) \<and> dict_get [(''calories'', 0::real)] k 0 = 0)
                key_nutrients"
    by (simp add: key_nutrients_def dict_get_def)
  show ?thesis
    using similarity_total [of "[]" "get_ingredients quinoa_bowl" "[]" "[(''calories'', 0)]"]
      empty zero
    by simp
qed

section \<open>The enricher and its input\<close>

text \<open>
  C8 fails on the code. The caller's dictionary \<open>{'title': 'Tea', 'tags': ['dinner']}\<close>
  is read through the heap before and after \<open>enrich_recipe\<close>: the shallow copy shares
  the tag list, every \<open>extend\<close> and \<open>append\<close> of the enricher writes into it, and the
  caller's list has grown from one tag to four.
\<close>

theorem enrich_recipe_mutates_input_tags:
  "tags (load tea_heap tea) = Some [''dinner'']
   \<and> tags (load (fst (snd (enrich_recipe fresh_enricher tea_heap tea))) tea)
       = Some [''dinner'', ''15-min-meals'', ''paleo-friendly'', ''whole30-compatible'']
   \<and> load (fst (snd (enrich_recipe fresh_enricher tea_heap tea))) tea \<noteq> load tea_heap tea"
proof -
  have before: "tags (load tea_heap tea) = Some [''dinner'']"
    by code_simp
  have after: "tags (load (fst (snd (enrich_recipe fresh_enricher tea_heap tea))) tea)
       = Some [''dinner'', ''15-min-meals'', ''paleo-friendly'', ''whole30-compatible'']"
    by code_simp
  have "tags (load (fst (snd (enrich_recipe fresh_enricher tea_heap tea))) tea)
        \<noteq> tags (load tea_heap tea)"
    unfolding before after by simp
  then have "load (fst (snd (enrich_recipe fresh_enricher tea_heap tea))) tea \<noteq> load tea_heap tea"
    by metis
  with before after show ?thesis by simp
qed

section \<open>The enricher keeps the tracker's meal type\<close>

lemma no_meal_name_append: "no_meal_name (xs @ ys) = (no_meal_name xs \<and> no_meal_name ys)"
  by (simp add: no_meal_name_def)

lemma no_meal_name_subset: "set xs \<subseteq> set ys \<Longrightarrow> no_meal_name ys \<Longrightarrow> no_meal_name xs"
  by (auto simp: no_meal_name_def list_all_iff)

lemma map_fst_filter_subset: "set (map fst (filter P xs)) \<subseteq> set (map fst xs)"
  by auto

lemma seasons_no_meal_name: "no_meal_name (classify_seasonal x)"
proof -
  have names: "no_meal_name (map fst SEASONAL_INGREDIENTS)"
    by (simp add: SEASONAL_INGREDIENTS_def no_meal_name_def)
  have "no_meal_name (map fst (filter P SEASONAL_INGREDIENTS))" for P
    by (rule no_meal_name_subset [OF map_fst_filter_subset names])
  then show ?thesis
    by (simp add: classify_seasonal_def Let_def no_meal_name_def)
qed

lemma cuisine_tag_no_meal_name: "no_meal_name [''cuisine-'' @ c]"
  by (simp add: no_meal_name_def)

lemma method_tags_no_meal_name: "no_meal_name (map (\<lambda>method. ''method-'' @ method) ms)"
  by (induction ms) (simp_all add: no_meal_name_def)

lemma time_category_no_meal_name: "categorize_prep_time t = Some tc \<Longrightarrow> no_meal_name [tc]"
  by (auto simp: categorize_prep_time_def no_meal_name_def split: if_splits)

lemma diet_tags_no_meal_name: "no_meal_name (identify_special_diets r)"
  by (simp add: identify_special_diets_def Let_def no_meal_name_def)

lemma trimester_tags_no_meal_name: "no_meal_name (snd (assess_trimester_suitability x))"
proof -
  let ?first = "\<lambda>(trimester :: string, avoid :: string list, beneficial :: string list,
                   tgs :: string list). take 1 tgs"
  have all: "no_meal_name (concat (map ?first TRIMESTER_CONSIDERATIONS))"
    by (simp add: TRIMESTER_CONSIDERATIONS_def no_meal_name_def)
  have "set (concat (map ?first (filter P TRIMESTER_CONSIDERATIONS)))
        \<subseteq> set (concat (map ?first TRIMESTER_CONSIDERATIONS))" for P
    by auto
  then have "no_meal_name (concat (map ?first (filter P TRIMESTER_CONSIDERATIONS)))" for P
    using all by (rule no_meal_name_subset)
  then show ?thesis
    by (simp add: assess_trimester_suitability_def Let_def list_set_def no_meal_name_def
        list_all_iff)
qed

lemma extend_cells: "cells (list_extend h a xs) a = cells h a @ xs"
  by (simp add: list_extend_def)

lemma extend_next_free: "next_free (list_extend h a xs) = next_free h"
  by (simp add: list_extend_def)

lemma tags_extended_step:
  assumes "tags_extended base a r (es, h, e)"
    and "cells h' a = cells h a @ new" and "no_meal_name new"
    and "next_free h' = next_free h"
    and "title e' = title e" and "nutrition e' = nutrition e" and "tags e' = tags e"
  shows "tags_extended base a r (es', h', e')"
proof -
  from assms(1) obtain added where
    "cells h a = base @ added" "no_meal_name added" "a < next_free h" "title e = title r"
    "nutrition e = nutrition r" "tags e = Some a"
    by (auto simp: tags_extended_def)
  with assms(2-) have "cells h' a = base @ (added @ new) \<and> no_meal_name (added @ new)
      \<and> a < next_free h'
      \<and> title e' = title r \<and> nutrition e' = nutrition r \<and> tags e' = Some a"
    by (simp add: no_meal_name_append)
  then show ?thesis
    unfolding tags_extended_def fst_conv snd_conv by (rule exI)
qed

lemma step_seasonal:
  "tags_extended base a r run \<Longrightarrow> tags_extended base a r (add_seasonal_tags a x run)"
proof (cases run)
  case (fields es h e)
  assume "tags_extended base a r run"
  then show ?thesis
    unfolding fields add_seasonal_tags_def Let_def prod.case
    by (rule tags_extended_step [where new = "classify_seasonal x"])
       (simp_all add: extend_cells extend_next_free seasons_no_meal_name)
qed

lemma step_cuisine:
  "tags_extended base a r run \<Longrightarrow> tags_extended base a r (add_cuisine a x y z run)"
proof (cases run)
  case (fields es h e)
  assume inv: "tags_extended base a r run"
  show ?thesis
  proof (cases "classify_cuisine x y z")
    case None
    then show ?thesis
      using inv by (simp add: fields add_cuisine_def)
  next
    case (Some c)
    from inv show ?thesis
      unfolding fields add_cuisine_def Some option.case prod.case
      by (rule tags_extended_step [where new = "[''cuisine-'' @ c]",
              OF _ _ cuisine_tag_no_meal_name])
         (simp_all add: extend_cells extend_next_free)
  qed
qed

lemma step_trimester:
  "tags_extended base a r run \<Longrightarrow> tags_extended base a r (add_trimester_suitability a x run)"
proof (cases run)
  case (fields es h e)
  assume "tags_extended base a r run"
  then show ?thesis
    unfolding fields add_trimester_suitability_def Let_def prod.case
    by (rule tags_extended_step [where new = "snd (assess_trimester_suitability x)"])
       (simp_all add: extend_cells extend_next_free trimester_tags_no_meal_name)
qed

lemma step_batch_freezer:
  "tags_extended base a r run \<Longrightarrow> tags_extended base a r (add_batch_freezer_flags a x y z run)"
proof (cases run)
  case (fields es h e)
  assume inv: "tags_extended base a r run"
  let ?new = "(if is_batch_friendly x y then [''batch-cooking''] else [])
              @ (if is_freezer_friendly x y z then [''freezer-friendly''] else [])"
  from inv show ?thesis
    unfolding fields add_batch_freezer_flags_def Let_def prod.case
    by (rule tags_extended_step [where new = ?new])
       (simp_all add: extend_cells extend_next_free no_meal_name_def)
qed

lemma step_shopping:
  "tags_extended base a r run \<Longrightarrow> tags_extended base a r (add_shopping_list run)"
proof (cases run)
  case (fields es h e)
  assume "tags_extended base a r run"
  then show ?thesis
    unfolding fields add_shopping_list_def prod.case
    by (rule tags_extended_step [where new = "[]"]) (simp_all add: no_meal_name_def)
qed

lemma step_methods:
  "tags_extended base a r run \<Longrightarrow> tags_extended base a r (add_cooking_methods a x run)"
proof (cases run)
  case (fields es h e)
  assume "tags_extended base a r run"
  then show ?thesis
    unfolding fields add_cooking_methods_def Let_def prod.case
    by (rule tags_extended_step
          [where new = "map (\<lambda>method. ''method-'' @ method) (extract_cooking_methods x)",
           OF _ _ method_tags_no_meal_name])
       (simp_all add: extend_cells extend_next_free)
qed

lemma step_time:
  "tags_extended base a r run \<Longrightarrow> tags_extended base a r (add_time_category a run)"
proof (cases run)
  case (fields es h e)
  assume inv: "tags_extended base a r run"
  show ?thesis
  proof (cases "categorize_prep_time (total_time e)")
    case None
    then show ?thesis
      using inv by (simp add: fields add_time_category_def)
  next
    case (Some tc)
    from inv show ?thesis
      unfolding fields add_time_category_def prod.case Some option.case
      by (rule tags_extended_step [where new = "[tc]"])
         (simp_all add: extend_cells extend_next_free time_category_no_meal_name [OF Some])
  qed
qed

lemma step_diets:
  "tags_extended base a r run \<Longrightarrow> tags_extended base a r (add_diet_tags a run)"
proof (cases run)
  case (fields es h e)
  assume "tags_extended base a r run"
  then show ?thesis
    unfolding fields add_diet_tags_def prod.case
    by (rule tags_extended_step [where new = "identify_special_diets (load h e)"])
       (simp_all add: extend_cells extend_next_free diet_tags_no_meal_name)
qed

text \<open>What \<open>enrich_recipe\<close> leaves behind: at the address \<open>a\<close> of the list it worked on
  (the caller's own list when the input has a \<open>tags\<close> key) stands the old content
  followed by the added tags, and the returned dictionary refers to a new list with
  the same elements.\<close>

lemma enrich_recipe_tags:
  fixes h :: heap and r :: rrecipe
  defines "a \<equiv> (case tags r of Some a \<Rightarrow> a | None \<Rightarrow> next_free h)"
    and "base \<equiv> (case tags r of Some a \<Rightarrow> cells h a | None \<Rightarrow> [])"
  assumes used: "case tags r of Some a \<Rightarrow> a < next_free h | None \<Rightarrow> True"
  shows "\<exists>added. no_meal_name added
           \<and> cells (fst (snd (enrich_recipe es h r))) a = base @ added
           \<and> tags (load (fst (snd (enrich_recipe es h r))) (snd (snd (enrich_recipe es h r))))
               = Some (list_set (base @ added))
           \<and> title (snd (snd (enrich_recipe es h r))) = title r
           \<and> nutrition (snd (snd (enrich_recipe es h r))) = nutrition r"
proof -
  let ?h0 = "case tags r of Some _ \<Rightarrow> h | None \<Rightarrow> fst (new_list h [])"
  have "cells ?h0 a = base @ [] \<and> no_meal_name [] \<and> a < next_free ?h0"
    using used by (simp add: a_def base_def new_list_def no_meal_name_def split: option.splits)
  then have start: "tags_extended base a r (es, ?h0, r\<lparr>tags := Some a\<rparr>)"
    unfolding tags_extended_def fst_conv snd_conv
    by (intro exI [of _ "[]"]) simp
  let ?x = "get_ingredients_text (r\<lparr>tags := Some a\<rparr>)"
    and ?t = "lower (get_title (r\<lparr>tags := Some a\<rparr>))"
    and ?d = "lower (get_description (r\<lparr>tags := Some a\<rparr>))"
    and ?i = "lower (py_join '' '' (get_instructions (r\<lparr>tags := Some a\<rparr>)))"
  let ?run = "add_diet_tags a (add_time_category a (add_cooking_methods a ?i
     (add_shopping_list (add_batch_freezer_flags a ?t ?i ?d (add_trimester_suitability a ?x
     (add_cuisine a ?x ?t ?d (add_seasonal_tags a ?x (es, ?h0, r\<lparr>tags := Some a\<rparr>))))))))"
  have run: "enrich_recipe es h r = remove_duplicate_tags a ?run"
    by (simp add: enrich_recipe_def Let_def a_def new_list_def split: option.splits)
  have "tags_extended base a r ?run"
    by (intro step_diets step_time step_methods step_shopping step_batch_freezer
        step_trimester step_cuisine step_seasonal start)
  then obtain added where inv:
    "cells (fst (snd ?run)) a = base @ added" "no_meal_name added"
    "a < next_free (fst (snd ?run))"
    "title (snd (snd ?run)) = title r" "nutrition (snd (snd ?run)) = nutrition r"
    "tags (snd (snd ?run)) = Some a"
    by (auto simp: tags_extended_def)
  obtain es1 h1 e1 where fields: "?run = (es1, h1, e1)"
    by (cases ?run)
  have "no_meal_name added
           \<and> cells (fst (snd (enrich_recipe es h r))) a = base @ added
           \<and> tags (load (fst (snd (enrich_recipe es h r))) (snd (snd (enrich_recipe es h r))))
               = Some (list_set (base @ added))
           \<and> title (snd (snd (enrich_recipe es h r))) = title r
           \<and> nutrition (snd (snd (enrich_recipe es h r))) = nutrition r"
    using inv unfolding run fields
    by (simp add: remove_duplicate_tags_def new_list_def load_def with_tags_def)
  then show ?thesis
    by (rule exI)
qed

lemma with_tags_fields:
  "title (with_tags t r) = title r" "nutrition (with_tags t r) = nutrition r"
  "tags (with_tags t r) = t"
  by (simp_all add: with_tags_def)

lemma load_fields: "title (load h e) = title e" "nutrition (load h e) = nutrition e"
  by (simp_all add: load_def with_tags_fields)

lemma enrich_recipe_value_alt:
  "snd (enrich_recipe_value es r) =
     load (fst (snd (enrich_recipe es (fst (store empty_heap r)) (snd (store empty_heap r)))))
          (snd (snd (enrich_recipe es (fst (store empty_heap r)) (snd (store empty_heap r)))))"
  by (simp add: enrich_recipe_value_def split: prod.splits)

text \<open>In the pipeline: the enriched candidate has the title and the nutrition of the
  candidate, and its tags are the candidate's tags and added tags, none of them a meal
  name.\<close>

lemma enrich_recipe_value_tags:
  "\<exists>added. no_meal_name added
     \<and> tags (snd (enrich_recipe_value es r)) = Some (list_set (get_tags r @ added))
     \<and> title (snd (enrich_recipe_value es r)) = title r
     \<and> nutrition (snd (enrich_recipe_value es r)) = nutrition r"
proof -
  let ?h0 = "fst (store empty_heap r)" and ?r0 = "snd (store empty_heap r)"
  have used: "case tags ?r0 of Some a \<Rightarrow> a < next_free ?h0 | None \<Rightarrow> True"
    by (simp add: store_def with_tags_fields new_list_def empty_heap_def split: option.splits)
  have base: "(case tags ?r0 of Some a \<Rightarrow> cells ?h0 a | None \<Rightarrow> []) = get_tags r"
    by (simp add: store_def with_tags_fields new_list_def empty_heap_def get_tags_def
        get_or_def split: option.splits)
  have fields: "title ?r0 = title r" "nutrition ?r0 = nutrition r"
    by (simp_all add: store_def with_tags_fields new_list_def split: option.splits)
  from enrich_recipe_tags [OF used, of es]
  obtain added where "no_meal_name added"
    "tags (load (fst (snd (enrich_recipe es ?h0 ?r0))) (snd (snd (enrich_recipe es ?h0 ?r0))))
       = Some (list_set (get_tags r @ added))"
    "title (snd (snd (enrich_recipe es ?h0 ?r0))) = title r"
    "nutrition (snd (snd (enrich_recipe es ?h0 ?r0))) = nutrition r"
    unfolding base fields by blast
  then have "no_meal_name added
     \<and> tags (snd (enrich_recipe_value es r)) = Some (list_set (get_tags r @ added))
     \<and> title (snd (enrich_recipe_value es r)) = title r
     \<and> nutrition (snd (enrich_recipe_value es r)) = nutrition r"
    unfolding enrich_recipe_value_alt load_fields by simp
  then show ?thesis
    by (rule exI)
qed

lemma get_meal_type_enriched:
  "get_meal_type (snd (enrich_recipe_value es r)) = get_meal_type r"
proof -
  obtain added where added: "no_meal_name added"
    and tgs: "tags (snd (enrich_recipe_value es r)) = Some (list_set (get_tags r @ added))"
    and ttl: "title (snd (enrich_recipe_value es r)) = title r"
    and nutr: "nutrition (snd (enrich_recipe_value es r)) = nutrition r"
    using enrich_recipe_value_tags [of es r] by blast
  have same: "(meal \<in> set (list_set (get_tags r @ added)) \<or> py_in meal t)
              = (meal \<in> set (get_tags r) \<or> py_in meal t)"
    if "meal \<in> set [''breakfast'', ''lunch'', ''dinner'', ''snacks'']" for meal t
    using that added by (auto simp: list_set_def no_meal_name_def list_all_iff)
  have found: "find (\<lambda>meal. meal \<in> set (list_set (get_tags r @ added)) \<or> py_in meal t)
          [''breakfast'', ''lunch'', ''dinner'', ''snacks'']
        = find (\<lambda>meal. meal \<in> set (get_tags r) \<or> py_in meal t)
          [''breakfast'', ''lunch'', ''dinner'', ''snacks'']" for t
    by (rule find_cong [OF refl]) (rule same)
  have gt: "get_tags (snd (enrich_recipe_value es r)) = list_set (get_tags r @ added)"
    by (simp add: get_tags_def [of "snd (enrich_recipe_value es r)"] get_or_def tgs)
  have gtl: "get_title (snd (enrich_recipe_value es r)) = get_title r"
    by (simp add: get_title_def ttl)
  have gn: "get_nutrition (snd (enrich_recipe_value es r)) = get_nutrition r"
    by (simp add: get_nutrition_def nutr)
  show ?thesis
    unfolding get_meal_type_def Let_def gt gtl gn found by (rule refl)
qed

section \<open>Properties of the orchestrator\<close>














lemma meal_target_90: "dict_get COLLECTION_TARGETS_by_meal_type m 90 = 90"
  by (simp add: dict_get_def COLLECTION_TARGETS_by_meal_type_def)








lemma fresh_tracker_admits: "fst (snd (tracker_add_recipe initialize_stats r))"
  using cuisine_target_positive [of "get_or ''other'' (cuisine r)"]
  by (simp add: add_admit meal_target_90 initialize_stats_def)








section \<open>The two meal-type classifications\<close>

text \<open>
  C10. A candidate with no meal-related tag, a title without any of the words
  breakfast, lunch, dinner, snacks, morning, pancake and muffin, and exactly 200
  calories is a snack for the validator (0 < 200 \<le> 200), which applies the snack
  bounds to it, and a dinner for the diversity tracker (200 < 200 fails, the fallback
  is dinner), before and after enrichment: when the tracker admits the enriched
  candidate, it is the dinner counter that grows and the snacks counter that stays.
\<close>

theorem meal_type_divergence:
  assumes "\<not> list_ex (\<lambda>t. t \<in> set (get_tags r))
               [''snack'', ''appetizer'', ''breakfast'', ''lunch'', ''dinner'', ''main'', ''snacks'']"
    and "\<not> any_in [''breakfast'', ''lunch'', ''dinner'', ''snacks'', ''morning'', ''pancake'',
                    ''muffin''] (lower (get_title r))"
    and "dict_get (get_nutrition r) ''calories'' 0 = 200"
  shows "determine_meal_type r = ''snacks''
         \<and> GD_GUIDELINES (determine_meal_type r)
             = \<lparr>min_carbs = 15, max_carbs = 30, min_fiber = 3, min_protein = 5\<rparr>
         \<and> get_meal_type r = ''dinner''
         \<and> get_meal_type (snd (enrich_recipe_value es r)) = ''dinner''
         \<and> (if fst (snd (tracker_add_recipe tr (snd (enrich_recipe_value es r))))
            then by_meal_type (fst (tracker_add_recipe tr (snd (enrich_recipe_value es r))))
                   ''dinner''
                   = by_meal_type tr ''dinner'' + 1
                 \<and> by_meal_type (fst (tracker_add_recipe tr (snd (enrich_recipe_value es r))))
                     ''snacks''
                   = by_meal_type tr ''snacks''
            else fst (tracker_add_recipe tr (snd (enrich_recipe_value es r))) = tr)"
proof -
  have validator: "determine_meal_type r = ''snacks''"
    using assms(1,3) by (simp add: determine_meal_type_def Let_def)
  have tracker: "get_meal_type r = ''dinner''"
    using assms by (simp add: get_meal_type_def Let_def any_in_def)
  have enriched: "get_meal_type (snd (enrich_recipe_value es r)) = ''dinner''"
    by (simp add: get_meal_type_enriched tracker)
  show ?thesis
    by (simp add: validator tracker enriched GD_GUIDELINES_def add_admitted
        add_surplus_unchanged update_stats_by_meal_type inc_def)
qed

theorem meal_type_divergence_witness:
  "dict_get (get_nutrition plain_200) ''calories'' 0 = 200
   \<and> determine_meal_type plain_200 = ''snacks''
   \<and> get_meal_type (snd (enrich_recipe_value fresh_enricher plain_200)) = ''dinner''
   \<and> by_meal_type (fst (tracker_add_recipe initialize_stats
                            (snd (enrich_recipe_value fresh_enricher plain_200)))) ''dinner'' = 1
   \<and> by_meal_type (fst (tracker_add_recipe initialize_stats
                            (snd (enrich_recipe_value fresh_enricher plain_200)))) ''snacks'' = 0"
proof -
  have tags: "\<not> list_ex (\<lambda>t. t \<in> set (get_tags plain_200))
               [''snack'', ''appetizer'', ''breakfast'', ''lunch'', ''dinner'', ''main'', ''snacks'']"
    by code_simp
  have ttl: "\<not> any_in [''breakfast'', ''lunch'', ''dinner'', ''snacks'', ''morning'', ''pancake'',
                    ''muffin''] (lower (get_title plain_200))"
    by code_simp
  have cal: "dict_get (get_nutrition plain_200) ''calories'' 0 = 200"
    by code_simp
  show ?thesis
    using meal_type_divergence [OF tags ttl cal, of fresh_enricher initialize_stats]
      fresh_tracker_admits [of "snd (enrich_recipe_value fresh_enricher plain_200)"] cal
    by (simp add: initialize_stats_def)
qed

end
